theory Spec2Isabelle
  imports Main "HOL-Library.Word" "HOL-Library.Sublist"
begin

unbundle bit_operations_syntax

section \<open>Python values\<close>

text \<open>
  The values \<^verbatim>\<open>nuke_bridge.py\<close> handles: what \<^verbatim>\<open>json.loads\<close> returns (None, bool,
  int, float, str, list, dict with string keys) and, for what the host hands back, an
  object of some other type (\<open>PObj\<close>, carrying the name of its type), which
  \<^verbatim>\<open>json.dumps\<close> cannot serialise. A float is its IEEE 754 double bit pattern. A dict
  is an association list in insertion order. A \<open>char\<close> stands for one character of a
  Python str.
\<close>

datatype pyval =
    PNone
  | PBool bool
  | PInt int
  | PFloat "64 word"
  | PStr string
  | PList "pyval list"
  | PDict "(string \<times> pyval) list"
  | PObj string

text \<open>
  Exceptions: the class and what \<^verbatim>\<open>str(e)\<close> returns. The classes are the ones the
  script's \<^verbatim>\<open>except\<close> clauses tell apart, the ones the builtins it uses raise, and two
  constructors for every other class, by whether it derives from \<^verbatim>\<open>Exception\<close>.
\<close>

datatype exn_class =
    JSONDecodeError
  | ImportError
  | ModuleNotFoundError
  | TypeError
  | ValueError
  | OverflowError
  | AttributeError
  | KeyError
  | RecursionError
  | RuntimeError
  | KeyboardInterrupt
  | SystemExit
  | OtherException string
  | OtherBaseException string

datatype pyexn = Exn (exn_class: exn_class) (exn_str: string)

fun derives_Exception :: "exn_class \<Rightarrow> bool" where
  "derives_Exception KeyboardInterrupt = False"
| "derives_Exception SystemExit = False"
| "derives_Exception (OtherBaseException _) = False"
| "derives_Exception _ = True"

definition isinstance_Exception :: "pyexn \<Rightarrow> bool" where
  "isinstance_Exception e = derives_Exception (exn_class e)"

definition isinstance_ImportError :: "pyexn \<Rightarrow> bool" where
  "isinstance_ImportError e = (exn_class e = ImportError \<or> exn_class e = ModuleNotFoundError)"

definition isinstance_JSONDecodeError :: "pyexn \<Rightarrow> bool" where
  "isinstance_JSONDecodeError e = (exn_class e = JSONDecodeError)"

definition bare_except :: "pyexn \<Rightarrow> bool" where
  "bare_except e = True"

section \<open>The Python runtime\<close>

text \<open>
  What the script takes from the interpreter and its standard library and this theory
  does not define: the JSON parser, the text \<^verbatim>\<open>str\<close> gives for a value that is not a
  str, the integer a str denotes for \<^verbatim>\<open>int\<close> (None when it denotes none), the
  message of an exception a builtin raises (by the name of the operation and the
  offending value), the text of \<^verbatim>\<open>traceback.format_exc()\<close>, and how many lists or
  dicts inside one another \<^verbatim>\<open>json.dumps\<close> can still enter, below the envelope, before
  the interpreter's recursion limit stops it (\<open>dumps_depth\<close>).
\<close>

record py =
  json_loads :: "string \<Rightarrow> pyexn + pyval"
  str_of :: "pyval \<Rightarrow> string"
  int_of_str :: "string \<Rightarrow> int option"
  builtin_msg :: "string \<Rightarrow> pyval \<Rightarrow> string"
  format_exc :: "pyexn \<Rightarrow> string"
  dumps_depth :: nat

definition builtin_error :: "py \<Rightarrow> exn_class \<Rightarrow> string \<Rightarrow> pyval \<Rightarrow> pyexn + 'a" where
  "builtin_error p c opn v = Inl (Exn c (builtin_msg p opn v))"

text \<open>\<^verbatim>\<open>str(v)\<close>, as an f-string formats \<^verbatim>\<open>{v}\<close>.\<close>

definition py_str :: "py \<Rightarrow> pyval \<Rightarrow> string" where
  "py_str p v = (case v of PStr s \<Rightarrow> s | _ \<Rightarrow> str_of p v)"

text \<open>Truth value of \<^verbatim>\<open>if v:\<close>. A float is false when it is \<open>0.0\<close> or \<open>-0.0\<close>.\<close>

fun py_truthy :: "pyval \<Rightarrow> bool" where
  "py_truthy PNone = False"
| "py_truthy (PBool b) = b"
| "py_truthy (PInt i) = (i \<noteq> 0)"
| "py_truthy (PFloat w) = (take_bit 63 w \<noteq> 0)"
| "py_truthy (PStr s) = (s \<noteq> [])"
| "py_truthy (PList xs) = (xs \<noteq> [])"
| "py_truthy (PDict kvs) = (kvs \<noteq> [])"
| "py_truthy (PObj t) = True"

text \<open>
  \<^verbatim>\<open>int(x)\<close> of a float: infinities raise OverflowError, NaN raises ValueError, any
  other value is truncated towards zero. With biased exponent \<open>e\<close> and fraction \<open>m\<close>
  the magnitude is \<open>(2^52 + m) * 2^(e - 1075)\<close> (\<open>m * 2^(1 - 1075)\<close> when \<open>e = 0\<close>).
\<close>

definition float_to_int :: "64 word \<Rightarrow> exn_class + int" where
  "float_to_int w =
     (let e = uint (take_bit 11 (drop_bit 52 w));
          m = uint (take_bit 52 w)
      in if e = 2047 then (if m = 0 then Inl OverflowError else Inl ValueError)
         else
           (let mant = (if e = 0 then m else m + 2 ^ 52);
                ex = (if e = 0 then 1 else e);
                mag = (if 1075 \<le> ex then mant * 2 ^ nat (ex - 1075)
                       else mant div 2 ^ nat (1075 - ex))
            in Inr (if bit w 63 then - mag else mag)))"

text \<open>\<^verbatim>\<open>int(v)\<close>.\<close>

fun py_int :: "py \<Rightarrow> pyval \<Rightarrow> pyexn + int" where
  "py_int p (PInt i) = Inr i"
| "py_int p (PBool b) = Inr (if b then 1 else 0)"
| "py_int p (PFloat w) =
     (case float_to_int w of
        Inl c \<Rightarrow> builtin_error p c ''int'' (PFloat w)
      | Inr i \<Rightarrow> Inr i)"
| "py_int p (PStr s) =
     (case int_of_str p s of
        None \<Rightarrow> builtin_error p ValueError ''int'' (PStr s)
      | Some i \<Rightarrow> Inr i)"
| "py_int p v = builtin_error p TypeError ''int'' v"

text \<open>
  \<^verbatim>\<open>key in args\<close> for a string key: key membership on a dict, element membership on a
  list, substring test on a str, TypeError on anything else.
\<close>

fun py_contains :: "py \<Rightarrow> pyval \<Rightarrow> string \<Rightarrow> pyexn + bool" where
  "py_contains p (PDict kvs) k = Inr (k \<in> set (map fst kvs))"
| "py_contains p (PList xs) k = Inr (PStr k \<in> set xs)"
| "py_contains p (PStr s) k = Inr (sublist k s)"
| "py_contains p v k = builtin_error p TypeError ''in'' v"

text \<open>\<^verbatim>\<open>args[key]\<close> for a string key: only a dict can be indexed by a str.\<close>

fun py_getitem :: "py \<Rightarrow> pyval \<Rightarrow> string \<Rightarrow> pyexn + pyval" where
  "py_getitem p (PDict kvs) k =
     (case map_of kvs k of
        None \<Rightarrow> builtin_error p KeyError ''getitem'' (PStr k)
      | Some v \<Rightarrow> Inr v)"
| "py_getitem p v k = builtin_error p TypeError ''getitem'' v"

text \<open>\<^verbatim>\<open>args.get(key, default)\<close>: only a dict has the method.\<close>

fun py_get :: "py \<Rightarrow> pyval \<Rightarrow> string \<Rightarrow> pyval \<Rightarrow> pyexn + pyval" where
  "py_get p (PDict kvs) k d = Inr (case map_of kvs k of None \<Rightarrow> d | Some v \<Rightarrow> v)"
| "py_get p v k d = builtin_error p AttributeError ''get'' v"

text \<open>The items \<^verbatim>\<open>enumerate(inputs)\<close> walks over.\<close>

fun py_iter :: "py \<Rightarrow> pyval \<Rightarrow> pyexn + pyval list" where
  "py_iter p (PList xs) = Inr xs"
| "py_iter p (PStr s) = Inr (map (\<lambda>c. PStr [c]) s)"
| "py_iter p (PDict kvs) = Inr (map (\<lambda>kv. PStr (fst kv)) kvs)"
| "py_iter p v = builtin_error p TypeError ''iter'' v"

text \<open>
  \<^verbatim>\<open>knob_name in node.knobs()\<close>, the keys of the knobs dict being strings: a list or a
  dict is unhashable, and nothing but an equal str is a member.
\<close>

fun py_in_keys :: "py \<Rightarrow> pyval \<Rightarrow> string list \<Rightarrow> pyexn + bool" where
  "py_in_keys p (PStr s) names = Inr (s \<in> set names)"
| "py_in_keys p (PList xs) names = builtin_error p TypeError ''hash'' (PList xs)"
| "py_in_keys p (PDict kvs) names = builtin_error p TypeError ''hash'' (PDict kvs)"
| "py_in_keys p v names = Inr False"

text \<open>\<^verbatim>\<open>d[k] = v\<close> on a dict: replaces the value of a key in place, appends a new key.\<close>

fun dict_set :: "(string \<times> pyval) list \<Rightarrow> string \<Rightarrow> pyval \<Rightarrow> (string \<times> pyval) list" where
  "dict_set [] k v = [(k, v)]"
| "dict_set ((k', v') # kvs) k v =
     (if k' = k then (k, v) # kvs else (k', v') # dict_set kvs k v)"

text \<open>
  \<^verbatim>\<open>json.dumps\<close> walks the value in order and raises at the first thing it cannot
  encode: TypeError at an object of a foreign type, RecursionError on entering a list
  or a dict when no level of nesting is left. \<open>dumps_error d v\<close> is the class of
  that exception when \<open>d\<close> levels are left, and None when \<open>v\<close> is encoded.
\<close>

fun first_error :: "exn_class option list \<Rightarrow> exn_class option" where
  "first_error [] = None"
| "first_error (None # rs) = first_error rs"
| "first_error (Some c # rs) = Some c"

fun dumps_error :: "nat \<Rightarrow> pyval \<Rightarrow> exn_class option" where
  "dumps_error d (PList xs) =
     (if d = 0 then Some RecursionError else first_error (map (dumps_error (d - 1)) xs))"
| "dumps_error d (PDict kvs) =
     (if d = 0 then Some RecursionError
      else first_error (map (\<lambda>kv. dumps_error (d - 1) (snd kv)) kvs))"
| "dumps_error d (PObj t) = Some TypeError"
| "dumps_error d v = None"

text \<open>
  \<^verbatim>\<open>json.dumps(v)\<close> as \<^verbatim>\<open>respond\<close> calls it: the envelope itself can always be
  entered, and \<open>dumps_depth\<close> levels are left below it.
\<close>

definition accepted :: "py \<Rightarrow> pyval \<Rightarrow> bool" where
  "accepted p v = (dumps_error (Suc (dumps_depth p)) v = None)"

definition json_dumps :: "py \<Rightarrow> pyval \<Rightarrow> pyexn + pyval" where
  "json_dumps p v =
     (case dumps_error (Suc (dumps_depth p)) v of
        None \<Rightarrow> Inr v
      | Some c \<Rightarrow> builtin_error p c ''dumps'' v)"

section \<open>The host scripting module\<close>

text \<open>
  The \<^verbatim>\<open>nuke\<close> module is not part of the script; it is a parameter. Every call the
  script makes on it, on a node or on a knob takes the state of the host session and
  returns what the call returns, or the exception it raises, with the new state. Node
  and knob handles are opaque (\<open>'n\<close>, \<open>'k\<close>). \<^verbatim>\<open>nuke.toNode\<close> is observed through
  the truth value of its result only: \<open>None\<close> is a result that \<^verbatim>\<open>if not node\<close> takes
  for absent, \<open>Some n\<close> any other. \<^verbatim>\<open>node.knobs()\<close> is observed through the keys of
  the dict it returns.
\<close>

record ('s, 'n, 'k) nuke =
  nuke_createNode :: "pyval \<Rightarrow> 's \<Rightarrow> (pyexn + 'n) \<times> 's"
  nuke_toNode :: "pyval \<Rightarrow> 's \<Rightarrow> (pyexn + 'n option) \<times> 's"
  nuke_execute :: "'n \<Rightarrow> int \<Rightarrow> int \<Rightarrow> 's \<Rightarrow> (pyexn + unit) \<times> 's"
  Node_setInput :: "'n \<Rightarrow> nat \<Rightarrow> 'n \<Rightarrow> 's \<Rightarrow> (pyexn + unit) \<times> 's"
  Node_name :: "'n \<Rightarrow> 's \<Rightarrow> (pyexn + pyval) \<times> 's"
  Node_Class :: "'n \<Rightarrow> 's \<Rightarrow> (pyexn + pyval) \<times> 's"
  Node_xpos :: "'n \<Rightarrow> 's \<Rightarrow> (pyexn + pyval) \<times> 's"
  Node_ypos :: "'n \<Rightarrow> 's \<Rightarrow> (pyexn + pyval) \<times> 's"
  Node_knobs :: "'n \<Rightarrow> 's \<Rightarrow> (pyexn + string list) \<times> 's"
  Node_getitem :: "'n \<Rightarrow> pyval \<Rightarrow> 's \<Rightarrow> (pyexn + 'k) \<times> 's"
  Knob_setValue :: "'k \<Rightarrow> pyval \<Rightarrow> 's \<Rightarrow> (pyexn + unit) \<times> 's"
  Knob_Class :: "'k \<Rightarrow> 's \<Rightarrow> (pyexn + pyval) \<times> 's"
  Knob_value :: "'k \<Rightarrow> 's \<Rightarrow> (pyexn + pyval) \<times> 's"

text \<open>The calls, and what a call returned, as the record of a run keeps them.\<close>

datatype ('n, 'k) call =
    C_createNode pyval
  | C_toNode pyval
  | C_execute 'n int int
  | C_setInput 'n nat 'n
  | C_name 'n
  | C_Class 'n
  | C_xpos 'n
  | C_ypos 'n
  | C_knobs 'n
  | C_getitem 'n pyval
  | C_setValue 'k pyval
  | C_knob_Class 'k
  | C_value 'k

datatype ('n, 'k) ret =
    R_unit
  | R_val pyval
  | R_node 'n
  | R_found "'n option"
  | R_knob 'k
  | R_keys "string list"

type_synonym ('n, 'k) event = "('n, 'k) call \<times> (pyexn + ('n, 'k) ret)"

section \<open>Running the script\<close>

text \<open>
  The state of a run: the host session, the objects printed to standard output so
  far (each line is \<^verbatim>\<open>json.dumps\<close> of one object; the object stands for the line) and
  the host calls made so far with their results. A statement of the script maps the
  state to the value it computes, or the exception it raises, and the new state.
  Writing a line to standard output is taken to succeed.
\<close>

record ('s, 'n, 'k) world =
  host :: 's
  stdout :: "pyval list"
  calls :: "('n, 'k) event list"

type_synonym ('a, 's, 'n, 'k) prog =
  "('s, 'n, 'k) world \<Rightarrow> (pyexn + 'a) \<times> ('s, 'n, 'k) world"

definition pret :: "'a \<Rightarrow> ('a, 's, 'n, 'k) prog" where
  "pret x w = (Inr x, w)"

definition lift :: "pyexn + 'a \<Rightarrow> ('a, 's, 'n, 'k) prog" where
  "lift r w = (r, w)"

definition pbind :: "('a, 's, 'n, 'k) prog \<Rightarrow> ('a \<Rightarrow> ('b, 's, 'n, 'k) prog) \<Rightarrow> ('b, 's, 'n, 'k) prog" where
  "pbind m f w = (case m w of (Inl e, w') \<Rightarrow> (Inl e, w') | (Inr x, w') \<Rightarrow> f x w')"

text \<open>
  \<^verbatim>\<open>try: body / except C as e: handler\<close>, where \<open>catches\<close> says which exceptions are
  instances of \<^verbatim>\<open>C\<close>. What the body did before it raised stays done.
\<close>

definition try_except ::
  "('a, 's, 'n, 'k) prog \<Rightarrow> (pyexn \<Rightarrow> bool) \<Rightarrow> (pyexn \<Rightarrow> ('a, 's, 'n, 'k) prog) \<Rightarrow> ('a, 's, 'n, 'k) prog" where
  "try_except body catches handler w =
     (case body w of
        (Inl e, w') \<Rightarrow> if catches e then handler e w' else (Inl e, w')
      | (Inr x, w') \<Rightarrow> (Inr x, w'))"

definition host_call ::
  "('n, 'k) call \<Rightarrow> ('a \<Rightarrow> ('n, 'k) ret) \<Rightarrow> ('s \<Rightarrow> (pyexn + 'a) \<times> 's) \<Rightarrow> ('a, 's, 'n, 'k) prog" where
  "host_call c wrap f w =
     (case f (host w) of
        (r, s') \<Rightarrow> (r, w\<lparr>host := s', calls := calls w @ [(c, map_sum id wrap r)]\<rparr>))"

definition createNode :: "('s, 'n, 'k) nuke \<Rightarrow> pyval \<Rightarrow> ('n, 's, 'n, 'k) prog" where
  "createNode nk t = host_call (C_createNode t) R_node (nuke_createNode nk t)"

definition toNode :: "('s, 'n, 'k) nuke \<Rightarrow> pyval \<Rightarrow> ('n option, 's, 'n, 'k) prog" where
  "toNode nk nm = host_call (C_toNode nm) R_found (nuke_toNode nk nm)"

definition render :: "('s, 'n, 'k) nuke \<Rightarrow> 'n \<Rightarrow> int \<Rightarrow> int \<Rightarrow> (unit, 's, 'n, 'k) prog" where
  "render nk n a b = host_call (C_execute n a b) (\<lambda>_. R_unit) (nuke_execute nk n a b)"

definition setInput :: "('s, 'n, 'k) nuke \<Rightarrow> 'n \<Rightarrow> nat \<Rightarrow> 'n \<Rightarrow> (unit, 's, 'n, 'k) prog" where
  "setInput nk n i m = host_call (C_setInput n i m) (\<lambda>_. R_unit) (Node_setInput nk n i m)"

definition name_of :: "('s, 'n, 'k) nuke \<Rightarrow> 'n \<Rightarrow> (pyval, 's, 'n, 'k) prog" where
  "name_of nk n = host_call (C_name n) R_val (Node_name nk n)"

definition Class_of :: "('s, 'n, 'k) nuke \<Rightarrow> 'n \<Rightarrow> (pyval, 's, 'n, 'k) prog" where
  "Class_of nk n = host_call (C_Class n) R_val (Node_Class nk n)"

definition xpos :: "('s, 'n, 'k) nuke \<Rightarrow> 'n \<Rightarrow> (pyval, 's, 'n, 'k) prog" where
  "xpos nk n = host_call (C_xpos n) R_val (Node_xpos nk n)"

definition ypos :: "('s, 'n, 'k) nuke \<Rightarrow> 'n \<Rightarrow> (pyval, 's, 'n, 'k) prog" where
  "ypos nk n = host_call (C_ypos n) R_val (Node_ypos nk n)"

definition knobs :: "('s, 'n, 'k) nuke \<Rightarrow> 'n \<Rightarrow> (string list, 's, 'n, 'k) prog" where
  "knobs nk n = host_call (C_knobs n) R_keys (Node_knobs nk n)"

definition getitem :: "('s, 'n, 'k) nuke \<Rightarrow> 'n \<Rightarrow> pyval \<Rightarrow> ('k, 's, 'n, 'k) prog" where
  "getitem nk n key = host_call (C_getitem n key) R_knob (Node_getitem nk n key)"

definition setValue :: "('s, 'n, 'k) nuke \<Rightarrow> 'k \<Rightarrow> pyval \<Rightarrow> (unit, 's, 'n, 'k) prog" where
  "setValue nk k v = host_call (C_setValue k v) (\<lambda>_. R_unit) (Knob_setValue nk k v)"

definition kClass :: "('s, 'n, 'k) nuke \<Rightarrow> 'k \<Rightarrow> (pyval, 's, 'n, 'k) prog" where
  "kClass nk k = host_call (C_knob_Class k) R_val (Knob_Class nk k)"

definition kvalue :: "('s, 'n, 'k) nuke \<Rightarrow> 'k \<Rightarrow> (pyval, 's, 'n, 'k) prog" where
  "kvalue nk k = host_call (C_value k) R_val (Knob_value nk k)"

subsection \<open>respond\<close>

text \<open>
  \<^verbatim>\<open>respond(success, data, error)\<close>: the \<^verbatim>\<open>error\<close> key is added when \<^verbatim>\<open>error\<close> is
  true, that is a non-empty str; \<^verbatim>\<open>json.dumps\<close> raises before anything is printed.
\<close>

definition envelope :: "bool \<Rightarrow> pyval \<Rightarrow> string option \<Rightarrow> pyval" where
  "envelope success data error =
     (let response = [(''success'', PBool success), (''data'', data)]
      in PDict (case error of
                  None \<Rightarrow> response
                | Some msg \<Rightarrow> if msg \<noteq> [] then dict_set response ''error'' (PStr msg) else response))"

definition print :: "pyval \<Rightarrow> (unit, 's, 'n, 'k) prog" where
  "print line w = (Inr (), w\<lparr>stdout := stdout w @ [line]\<rparr>)"

definition respond :: "py \<Rightarrow> bool \<Rightarrow> pyval \<Rightarrow> string option \<Rightarrow> (unit, 's, 'n, 'k) prog" where
  "respond p success data error =
     pbind (lift (json_dumps p (envelope success data error))) print"

subsection \<open>create_node\<close>

text \<open>
  The \<^verbatim>\<open>for i, input_name in enumerate(inputs)\<close> loop. It returns \<open>True\<close> when it
  ran to its end and \<open>False\<close> when it responded and returned from \<^verbatim>\<open>create_node\<close>.
\<close>

fun create_node_inputs ::
  "py \<Rightarrow> ('s, 'n, 'k) nuke \<Rightarrow> 'n \<Rightarrow> nat \<Rightarrow> pyval list \<Rightarrow> (bool, 's, 'n, 'k) prog" where
  "create_node_inputs p nk node i [] = pret True"
| "create_node_inputs p nk node i (input_name # rest) =
     pbind (toNode nk input_name) (\<lambda>input_node.
       case input_node of
         Some m \<Rightarrow>
           pbind (setInput nk node i m) (\<lambda>_. create_node_inputs p nk node (Suc i) rest)
       | None \<Rightarrow>
           pbind (respond p False PNone
                    (Some (''Input node not found: '' @ py_str p input_name)))
                 (\<lambda>_. pret False))"

text \<open>
  The entries \<^verbatim>\<open>name\<close>, \<^verbatim>\<open>type\<close> and \<^verbatim>\<open>position\<close> of the \<^verbatim>\<open>node_info\<close> dict literal
  of \<^verbatim>\<open>create_node\<close> and \<^verbatim>\<open>get_node\<close>, evaluated in the order written.
\<close>

definition node_info :: "('s, 'n, 'k) nuke \<Rightarrow> 'n \<Rightarrow> ((string \<times> pyval) list, 's, 'n, 'k) prog" where
  "node_info nk node =
     pbind (name_of nk node) (\<lambda>nm.
     pbind (Class_of nk node) (\<lambda>c.
     pbind (xpos nk node) (\<lambda>x.
     pbind (ypos nk node) (\<lambda>y.
     pret [(''name'', nm), (''type'', c), (''position'', PDict [(''x'', x), (''y'', y)])]))))"

definition create_node_try ::
  "py \<Rightarrow> ('s, 'n, 'k) nuke \<Rightarrow> pyval \<Rightarrow> pyval \<Rightarrow> pyval \<Rightarrow> (unit, 's, 'n, 'k) prog" where
  "create_node_try p nk node_type name inputs =
     pbind (createNode nk node_type) (\<lambda>node.
     pbind (if py_truthy name
            then pbind (getitem nk node (PStr ''name'')) (\<lambda>k. setValue nk k name)
            else pret ()) (\<lambda>_.
     pbind (lift (py_iter p inputs)) (\<lambda>items.
     pbind (create_node_inputs p nk node 0 items) (\<lambda>completed.
     if completed
     then pbind (node_info nk node) (\<lambda>info. respond p True (PDict info) None)
     else pret ()))))"

definition create_node :: "py \<Rightarrow> pyval \<Rightarrow> ('s, 'n, 'k) nuke \<Rightarrow> (unit, 's, 'n, 'k) prog" where
  "create_node p args nk =
     pbind (lift (py_contains p args ''nodeType'')) (\<lambda>present.
     if \<not> present then respond p False PNone (Some ''nodeType parameter is required'')
     else
       pbind (lift (py_getitem p args ''nodeType'')) (\<lambda>node_type.
       pbind (lift (py_get p args ''name'' PNone)) (\<lambda>name.
       pbind (lift (py_get p args ''inputs'' (PList []))) (\<lambda>inputs.
       try_except (create_node_try p nk node_type name inputs) isinstance_Exception
         (\<lambda>e. respond p False PNone (Some (''Error creating node: '' @ exn_str e)))))))"

subsection \<open>set_knob_value\<close>

definition set_knob_value_try ::
  "py \<Rightarrow> ('s, 'n, 'k) nuke \<Rightarrow> pyval \<Rightarrow> pyval \<Rightarrow> pyval \<Rightarrow> (unit, 's, 'n, 'k) prog" where
  "set_knob_value_try p nk node_name knob_name val =
     pbind (toNode nk node_name) (\<lambda>found.
     case found of
       None \<Rightarrow> respond p False PNone (Some (''Node not found: '' @ py_str p node_name))
     | Some node \<Rightarrow>
         pbind (knobs nk node) (\<lambda>names.
         pbind (lift (py_in_keys p knob_name names)) (\<lambda>present.
         if \<not> present
         then respond p False PNone (Some (''Knob not found: '' @ py_str p knob_name))
         else
           pbind (getitem nk node knob_name) (\<lambda>k.
           pbind (setValue nk k val) (\<lambda>_.
           respond p True
             (PDict [(''node'', node_name), (''knob'', knob_name), (''value'', val)]) None)))))"

definition set_knob_value :: "py \<Rightarrow> pyval \<Rightarrow> ('s, 'n, 'k) nuke \<Rightarrow> (unit, 's, 'n, 'k) prog" where
  "set_knob_value p args nk =
     pbind (lift (py_contains p args ''nodeName'')) (\<lambda>present.
     if \<not> present then respond p False PNone (Some ''nodeName parameter is required'')
     else
       pbind (lift (py_contains p args ''knobName'')) (\<lambda>present.
       if \<not> present then respond p False PNone (Some ''knobName parameter is required'')
       else
         pbind (lift (py_contains p args ''value'')) (\<lambda>present.
         if \<not> present then respond p False PNone (Some ''value parameter is required'')
         else
           pbind (lift (py_getitem p args ''nodeName'')) (\<lambda>node_name.
           pbind (lift (py_getitem p args ''knobName'')) (\<lambda>knob_name.
           pbind (lift (py_getitem p args ''value'')) (\<lambda>val.
           try_except (set_knob_value_try p nk node_name knob_name val) isinstance_Exception
             (\<lambda>e. respond p False PNone
                     (Some (''Error setting knob value: '' @ exn_str e)))))))))"

subsection \<open>get_node\<close>

definition string_knobs :: "pyval list" where
  "string_knobs = [PStr ''String_Knob'', PStr ''File_Knob'', PStr ''Text_Knob'']"

definition number_knobs :: "pyval list" where
  "number_knobs = [PStr ''Int_Knob'', PStr ''Double_Knob'', PStr ''Boolean_Knob'', PStr ''XY_Knob'']"

text \<open>
  One round of \<^verbatim>\<open>for knob in node.knobs()\<close>: the \<^verbatim>\<open>elif\<close> asks \<^verbatim>\<open>k.Class()\<close> a second
  time, and the bare \<^verbatim>\<open>except: pass\<close> leaves the knobs dict as it was.
\<close>

definition get_node_knob ::
  "('s, 'n, 'k) nuke \<Rightarrow> 'n \<Rightarrow> string \<Rightarrow> (string \<times> pyval) list \<Rightarrow> ((string \<times> pyval) list, 's, 'n, 'k) prog" where
  "get_node_knob nk node knob acc =
     try_except
       (pbind (getitem nk node (PStr knob)) (\<lambda>k.
        pbind (kClass nk k) (\<lambda>c.
        if c \<in> set string_knobs
        then pbind (kvalue nk k) (\<lambda>v. pret (dict_set acc knob v))
        else
          pbind (kClass nk k) (\<lambda>c'.
          if c' \<in> set number_knobs
          then pbind (kvalue nk k) (\<lambda>v. pret (dict_set acc knob v))
          else pret acc))))
       bare_except (\<lambda>e. pret acc)"

fun get_node_knobs ::
  "('s, 'n, 'k) nuke \<Rightarrow> 'n \<Rightarrow> string list \<Rightarrow> (string \<times> pyval) list \<Rightarrow> ((string \<times> pyval) list, 's, 'n, 'k) prog" where
  "get_node_knobs nk node [] acc = pret acc"
| "get_node_knobs nk node (knob # rest) acc =
     pbind (get_node_knob nk node knob acc) (\<lambda>acc'. get_node_knobs nk node rest acc')"

definition get_node_try :: "py \<Rightarrow> ('s, 'n, 'k) nuke \<Rightarrow> pyval \<Rightarrow> (unit, 's, 'n, 'k) prog" where
  "get_node_try p nk node_name =
     pbind (toNode nk node_name) (\<lambda>found.
     case found of
       None \<Rightarrow> respond p False PNone (Some (''Node not found: '' @ py_str p node_name))
     | Some node \<Rightarrow>
         pbind (node_info nk node) (\<lambda>info.
         pbind (knobs nk node) (\<lambda>names.
         pbind (get_node_knobs nk node names []) (\<lambda>kn.
         respond p True (PDict (info @ [(''knobs'', PDict kn)])) None))))"

definition get_node :: "py \<Rightarrow> pyval \<Rightarrow> ('s, 'n, 'k) nuke \<Rightarrow> (unit, 's, 'n, 'k) prog" where
  "get_node p args nk =
     pbind (lift (py_contains p args ''nodeName'')) (\<lambda>present.
     if \<not> present then respond p False PNone (Some ''nodeName parameter is required'')
     else
       pbind (lift (py_getitem p args ''nodeName'')) (\<lambda>node_name.
       try_except (get_node_try p nk node_name) isinstance_Exception
         (\<lambda>e. respond p False PNone (Some (''Error getting node info: '' @ exn_str e)))))"

subsection \<open>execute\<close>

definition execute_try ::
  "py \<Rightarrow> ('s, 'n, 'k) nuke \<Rightarrow> pyval \<Rightarrow> pyval \<Rightarrow> pyval \<Rightarrow> (unit, 's, 'n, 'k) prog" where
  "execute_try p nk write_node_name frame_start frame_end =
     pbind (toNode nk write_node_name) (\<lambda>found.
     case found of
       None \<Rightarrow>
         respond p False PNone (Some (''Write node not found: '' @ py_str p write_node_name))
     | Some write_node \<Rightarrow>
         pbind (Class_of nk write_node) (\<lambda>c.
         if c \<noteq> PStr ''Write''
         then respond p False PNone
                (Some (''Node '' @ py_str p write_node_name @ '' is not a Write node''))
         else
           pbind (lift (py_int p frame_start)) (\<lambda>a.
           pbind (lift (py_int p frame_end)) (\<lambda>b.
           pbind (render nk write_node a b) (\<lambda>_.
           pbind (getitem nk write_node (PStr ''file'')) (\<lambda>k.
           pbind (kvalue nk k) (\<lambda>path.
           respond p True
             (PDict [(''node'', write_node_name), (''rendered'', PBool True),
                     (''frameRange'', PDict [(''start'', frame_start), (''end'', frame_end)]),
                     (''outputPath'', path)]) None)))))))"

definition execute :: "py \<Rightarrow> pyval \<Rightarrow> ('s, 'n, 'k) nuke \<Rightarrow> (unit, 's, 'n, 'k) prog" where
  "execute p args nk =
     pbind (lift (py_contains p args ''writeNodeName'')) (\<lambda>present.
     if \<not> present then respond p False PNone (Some ''writeNodeName parameter is required'')
     else
       pbind (lift (py_contains p args ''frameRangeStart'')) (\<lambda>present.
       if \<not> present then respond p False PNone (Some ''frameRangeStart parameter is required'')
       else
         pbind (lift (py_contains p args ''frameRangeEnd'')) (\<lambda>present.
         if \<not> present then respond p False PNone (Some ''frameRangeEnd parameter is required'')
         else
           pbind (lift (py_getitem p args ''writeNodeName'')) (\<lambda>write_node_name.
           pbind (lift (py_getitem p args ''frameRangeStart'')) (\<lambda>frame_start.
           pbind (lift (py_getitem p args ''frameRangeEnd'')) (\<lambda>frame_end.
           try_except (execute_try p nk write_node_name frame_start frame_end)
             isinstance_Exception
             (\<lambda>e. respond p False PNone
                     (Some (''Error executing write node: '' @ exn_str e)))))))))"

subsection \<open>main\<close>

text \<open>The \<^verbatim>\<open>if command == ... elif ... else\<close> chain.\<close>

definition dispatch :: "py \<Rightarrow> string \<Rightarrow> pyval \<Rightarrow> ('s, 'n, 'k) nuke \<Rightarrow> (unit, 's, 'n, 'k) prog" where
  "dispatch p command args nk =
     (if command = ''createNode'' then create_node p args nk
      else if command = ''setKnobValue'' then set_knob_value p args nk
      else if command = ''getNode'' then get_node p args nk
      else if command = ''execute'' then execute p args nk
      else respond p False PNone (Some (''Unknown command: '' @ command)))"

text \<open>
  \<open>main p import_nuke argv\<close>: \<open>argv\<close> is \<^verbatim>\<open>sys.argv\<close> (the script's name first) and
  \<open>import_nuke\<close> is what \<^verbatim>\<open>import nuke\<close> gives, the module or the exception raised.
  The result \<open>Inr ()\<close> is a normal return of \<^verbatim>\<open>main\<close>, \<open>Inl e\<close> an exception that
  leaves it.
\<close>

definition main ::
  "py \<Rightarrow> pyexn + ('s, 'n, 'k) nuke \<Rightarrow> string list \<Rightarrow> (unit, 's, 'n, 'k) prog" where
  "main p import_nuke argv =
     (if length argv < 2 then respond p False PNone (Some ''No command specified'')
      else
        (let command = argv ! 1 in
         case (if length argv > 2 then json_loads p (argv ! 2) else Inr (PDict [])) of
           Inl e \<Rightarrow>
             if isinstance_JSONDecodeError e
             then respond p False PNone (Some (''Invalid JSON arguments: '' @ exn_str e))
             else lift (Inl e)
         | Inr args \<Rightarrow>
             try_except
               (case import_nuke of
                  Inl e \<Rightarrow>
                    if isinstance_ImportError e
                    then respond p False PNone
                           (Some ''Failed to import nuke module. Make sure this script is run within Nuke.'')
                    else lift (Inl e)
                | Inr nk \<Rightarrow> dispatch p command args nk)
               isinstance_Exception
               (\<lambda>e. respond p False PNone
                       (Some (''Error executing command: '' @ exn_str e @ [CHR 0x0A] @ format_exc p e)))))"

section \<open>Properties of runs\<close>

text \<open>
  A well-formed response envelope: a dict with a boolean \<^verbatim>\<open>success\<close> and a \<^verbatim>\<open>data\<close>
  entry, \<^verbatim>\<open>data\<close> being None on failure, and an \<^verbatim>\<open>error\<close> entry exactly on failure.
\<close>

definition well_formed :: "pyval \<Rightarrow> bool" where
  "well_formed e =
     (case e of
        PDict kvs \<Rightarrow>
          (case (map_of kvs ''success'', map_of kvs ''data'') of
             (Some (PBool ok), Some d) \<Rightarrow>
               (ok \<or> d = PNone) \<and> ((''error'' \<in> set (map fst kvs)) = (\<not> ok))
           | _ \<Rightarrow> False)
      | _ \<Rightarrow> False)"

text \<open>The failure envelope \<^verbatim>\<open>respond(False, None, msg)\<close> prints.\<close>

definition failure :: "string \<Rightarrow> pyval" where
  "failure msg = PDict [(''success'', PBool False), (''data'', PNone), (''error'', PStr msg)]"

text \<open>The success envelope \<^verbatim>\<open>respond(True, data)\<close> prints.\<close>

definition success :: "pyval \<Rightarrow> pyval" where
  "success data = PDict [(''success'', PBool True), (''data'', data)]"

text \<open>
  \<open>quiet P m\<close>: the statement \<open>m\<close> prints nothing, and an exception it raises
  satisfies \<open>P\<close>. \<open>once P m\<close>: when \<open>m\<close> returns it has printed exactly one
  well-formed envelope; when it raises it has printed nothing and the exception
  satisfies \<open>P\<close>.
\<close>

definition quiet :: "(pyexn \<Rightarrow> bool) \<Rightarrow> ('a, 's, 'n, 'k) prog \<Rightarrow> bool" where
  "quiet P m =
     (\<forall>w. case m w of
             (Inl e, w') \<Rightarrow> stdout w' = stdout w \<and> P e
           | (Inr x, w') \<Rightarrow> stdout w' = stdout w)"

definition once :: "(pyexn \<Rightarrow> bool) \<Rightarrow> ('a, 's, 'n, 'k) prog \<Rightarrow> bool" where
  "once P m =
     (\<forall>w. case m w of
             (Inl e, w') \<Rightarrow> stdout w' = stdout w \<and> P e
           | (Inr x, w') \<Rightarrow> (\<exists>env. stdout w' = stdout w @ [env] \<and> well_formed env))"

text \<open>
  A host call that raises only exceptions satisfying \<open>P\<close>, and a host module all of
  whose calls do.
\<close>

definition raises_only :: "(pyexn \<Rightarrow> bool) \<Rightarrow> ('s \<Rightarrow> (pyexn + 'a) \<times> 's) \<Rightarrow> bool" where
  "raises_only P f = (\<forall>s e. fst (f s) = Inl e \<longrightarrow> P e)"

definition host_raises_only :: "(pyexn \<Rightarrow> bool) \<Rightarrow> ('s, 'n, 'k) nuke \<Rightarrow> bool" where
  "host_raises_only P nk =
     ((\<forall>t. raises_only P (nuke_createNode nk t)) \<and>
      (\<forall>nm. raises_only P (nuke_toNode nk nm)) \<and>
      (\<forall>n a b. raises_only P (nuke_execute nk n a b)) \<and>
      (\<forall>n i m. raises_only P (Node_setInput nk n i m)) \<and>
      (\<forall>n. raises_only P (Node_name nk n)) \<and>
      (\<forall>n. raises_only P (Node_Class nk n)) \<and>
      (\<forall>n. raises_only P (Node_xpos nk n)) \<and>
      (\<forall>n. raises_only P (Node_ypos nk n)) \<and>
      (\<forall>n. raises_only P (Node_knobs nk n)) \<and>
      (\<forall>n key. raises_only P (Node_getitem nk n key)) \<and>
      (\<forall>k v. raises_only P (Knob_setValue nk k v)) \<and>
      (\<forall>k. raises_only P (Knob_Class nk k)) \<and>
      (\<forall>k. raises_only P (Knob_value nk k)))"

text \<open>
  \<open>scalar_read nk node evs key v\<close>: among the events \<open>evs\<close>, the knob \<open>key\<close> of
  \<open>node\<close> was fetched, the handle fetched reported one of the seven scalar classes and
  returned the value \<open>v\<close>; and these are answers the host \<open>nk\<close> gives.
\<close>

definition scalar_read ::
  "('s, 'n, 'k) nuke \<Rightarrow> 'n \<Rightarrow> ('n, 'k) event list \<Rightarrow> string \<Rightarrow> pyval \<Rightarrow> bool" where
  "scalar_read nk node evs key v =
     (\<exists>k kind.
        (C_getitem node (PStr key), Inr (R_knob k)) \<in> set evs \<and>
        (C_knob_Class k, Inr (R_val kind)) \<in> set evs \<and>
        (C_value k, Inr (R_val v)) \<in> set evs \<and>
        kind \<in> set string_knobs \<union> set number_knobs \<and>
        (\<exists>s s'. Node_getitem nk node (PStr key) s = (Inr k, s')) \<and>
        (\<exists>s s'. Knob_Class nk k s = (Inr kind, s')) \<and>
        (\<exists>s s'. Knob_value nk k s = (Inr v, s')))"

text \<open>
  The required keys of each command, in the order of the table of operations (which is
  the order the handler checks them in).
\<close>

definition required_keys :: "string \<Rightarrow> string list" where
  "required_keys command =
     (if command = ''createNode'' then [''nodeType'']
      else if command = ''setKnobValue'' then [''nodeName'', ''knobName'', ''value'']
      else if command = ''getNode'' then [''nodeName'']
      else if command = ''execute'' then [''writeNodeName'', ''frameRangeStart'', ''frameRangeEnd'']
      else [])"

text \<open>
  The host calls of \<^verbatim>\<open>create_node\<close>'s loop over inputs that all resolve: for the
  input at slot \<open>i\<close> a lookup that finds \<open>m\<close>, then \<^verbatim>\<open>node.setInput(i, m)\<close>.
\<close>

fun wiring :: "'n \<Rightarrow> nat \<Rightarrow> pyval list \<Rightarrow> 'n list \<Rightarrow> ('n, 'k) event list" where
  "wiring node i (x # xs) (m # ms) =
     (C_toNode x, Inr (R_found (Some m))) # (C_setInput node i m, Inr R_unit) #
     wiring node (Suc i) xs ms"
| "wiring node i xs ms = []"

section \<open>A small host session\<close>

text \<open>
  A host to run the script against: a session is the list of its nodes (name and
  class), the inputs wired, the knob values set and the renders done. A node handle
  is the node's name, a knob handle the node's and the knob's names. Every node has
  the knobs \<^verbatim>\<open>name\<close>, \<^verbatim>\<open>file\<close>, \<^verbatim>\<open>channels\<close> and \<^verbatim>\<open>locked\<close>; reading \<^verbatim>\<open>locked\<close> raises.
\<close>

record session =
  nodes :: "(string \<times> string) list"
  wired :: "(string \<times> nat \<times> string) list"
  knob_values :: "((string \<times> string) \<times> pyval) list"
  rendered :: "(string \<times> int \<times> int) list"

definition demo_knobs :: "string list" where
  "demo_knobs = [''name'', ''file'', ''channels'', ''locked'']"

definition demo_nuke :: "(session, string, string \<times> string) nuke" where
  "demo_nuke =
     \<lparr>nuke_createNode = (\<lambda>t s. case t of
          PStr c \<Rightarrow> (Inr (c @ ''1''), s\<lparr>nodes := nodes s @ [(c @ ''1'', c)]\<rparr>)
        | _ \<Rightarrow> (Inl (Exn TypeError ''createNode: a string is required''), s)),
      nuke_toNode = (\<lambda>nm s. case nm of
          PStr n \<Rightarrow> (Inr (if n \<in> set (map fst (nodes s)) then Some n else None), s)
        | _ \<Rightarrow> (Inl (Exn TypeError ''toNode: a string is required''), s)),
      nuke_execute = (\<lambda>n a b s. (Inr (), s\<lparr>rendered := rendered s @ [(n, a, b)]\<rparr>)),
      Node_setInput = (\<lambda>n i m s. (Inr (), s\<lparr>wired := wired s @ [(n, i, m)]\<rparr>)),
      Node_name = (\<lambda>n s. (Inr (PStr n), s)),
      Node_Class = (\<lambda>n s. case map_of (nodes s) n of
          Some c \<Rightarrow> (Inr (PStr c), s)
        | None \<Rightarrow> (Inl (Exn ValueError ''A PythonObject is not attached to a node''), s)),
      Node_xpos = (\<lambda>n s. (Inr (PInt 0), s)),
      Node_ypos = (\<lambda>n s. (Inr (PInt 0), s)),
      Node_knobs = (\<lambda>n s. (Inr demo_knobs, s)),
      Node_getitem = (\<lambda>n key s. case key of
          PStr k \<Rightarrow> if k \<in> set demo_knobs then (Inr (n, k), s)
                    else (Inl (Exn (OtherException ''NameError'') ''knob does not exist''), s)
        | _ \<Rightarrow> (Inl (Exn TypeError ''a string is required''), s)),
      Knob_setValue = (\<lambda>k v s. (Inr (), s\<lparr>knob_values := (k, v) # knob_values s\<rparr>)),
      Knob_Class = (\<lambda>k s.
          (Inr (PStr (if snd k = ''file'' then ''File_Knob''
                      else if snd k = ''channels'' then ''ChannelMask_Knob''
                      else ''String_Knob'')), s)),
      Knob_value = (\<lambda>k s.
          if snd k = ''locked'' then (Inl (Exn RuntimeError ''knob is locked''), s)
          else (Inr (case map_of (knob_values s) k of Some v \<Rightarrow> v | None \<Rightarrow> PStr []), s))\<rparr>"

text \<open>
  A runtime for it: the parser knows the documents \<^verbatim>\<open>{}\<close>, \<^verbatim>\<open>null\<close> and
  \<open>execute_args\<close> and rejects every other text; \<^verbatim>\<open>str\<close> and \<^verbatim>\<open>int\<close> of the values
  met here are fixed texts; \<^verbatim>\<open>json.dumps\<close> has 991 levels left below the envelope.
\<close>

definition execute_args :: string where
  \<open>execute_args = ''{"writeNodeName": "Write1", "frameRangeStart": 1, "frameRangeEnd": 10}''\<close>

definition demo_py :: py where
  "demo_py =
     \<lparr>json_loads = (\<lambda>s. if s = ''{}'' then Inr (PDict [])
                         else if s = ''null'' then Inr PNone
                         else if s = execute_args
                         then Inr (PDict [(''writeNodeName'', PStr ''Write1''),
                                          (''frameRangeStart'', PInt 1), (''frameRangeEnd'', PInt 10)])
                         else Inl (Exn JSONDecodeError ''Expecting value: line 1 column 1 (char 0)'')),
      str_of = (\<lambda>v. ''<value>''),
      int_of_str = (\<lambda>s. if s = ''1'' then Some 1 else if s = ''10'' then Some 10 else None),
      builtin_msg = (\<lambda>opn v. opn),
      format_exc = (\<lambda>e. ''Traceback (most recent call last):''),
      dumps_depth = 991\<rparr>"

definition session0 :: session where
  "session0 = \<lparr>nodes = [(''Read1'', ''Read''), (''Write1'', ''Write'')], wired = [],
               knob_values = [((''Write1'', ''file''), PStr ''/out/shot.####.exr'')],
               rendered = []\<rparr>"

definition world0 :: "(session, string, string \<times> string) world" where
  "world0 = \<lparr>host = session0, stdout = [], calls = []\<rparr>"

text \<open>A value inside \<open>n\<close> lists, as \<^verbatim>\<open>[[[0]]]\<close> is \<open>nest 3 (PInt 0)\<close>.\<close>

fun nest :: "nat \<Rightarrow> pyval \<Rightarrow> pyval" where
  "nest 0 v = v"
| "nest (Suc n) v = PList [nest n v]"

text \<open>The same host with a render that is interrupted from the keyboard.\<close>

definition interrupted_nuke :: "(session, string, string \<times> string) nuke" where
  "interrupted_nuke =
     demo_nuke\<lparr>nuke_execute := (\<lambda>n a b s. (Inl (Exn KeyboardInterrupt []), s))\<rparr>"

section \<open>Facts about runs\<close>

lemma pbind_pret: "pbind (pret x) f w = f x w"
  by (simp add: pbind_def pret_def)

lemma pbind_lift_Inr: "pbind (lift (Inr x)) f w = f x w"
  by (simp add: pbind_def lift_def)

lemma pbind_lift_Inl: "pbind (lift (Inl e)) f w = (Inl e, w)"
  by (simp add: pbind_def lift_def)

lemma pbind_host_call:
  "pbind (host_call c wrap f) g w =
     (case f (host w) of
        (Inl e, s') \<Rightarrow> (Inl e, w\<lparr>host := s', calls := calls w @ [(c, Inl e)]\<rparr>)
      | (Inr x, s') \<Rightarrow> g x (w\<lparr>host := s', calls := calls w @ [(c, Inr (wrap x))]\<rparr>))"
  by (simp add: pbind_def host_call_def split: prod.splits sum.splits)

lemma respond_failure:
  "msg \<noteq> [] \<Longrightarrow> respond p False PNone (Some msg) w = (Inr (), w\<lparr>stdout := stdout w @ [failure msg]\<rparr>)"
  by (simp add: respond_def envelope_def json_dumps_def failure_def print_def pbind_def lift_def)

lemma respond_success:
  "accepted p (success d) \<Longrightarrow>
   respond p True d None w = (Inr (), w\<lparr>stdout := stdout w @ [success d]\<rparr>)"
  by (simp add: respond_def envelope_def json_dumps_def accepted_def success_def print_def
        pbind_def lift_def)

lemma respond_refused:
  "dumps_error (Suc (dumps_depth p)) (success d) = Some c \<Longrightarrow>
   respond p True d None w = (Inl (Exn c (builtin_msg p ''dumps'' (success d))), w)"
  by (simp add: respond_def envelope_def json_dumps_def success_def builtin_error_def
        pbind_def lift_def)

lemma first_error_member: "first_error rs = Some c \<Longrightarrow> Some c \<in> set rs"
  by (induction rs rule: first_error.induct) auto

lemma dumps_error_class: "dumps_error d v = Some c \<Longrightarrow> derives_Exception c"
proof (induction d v arbitrary: c rule: dumps_error.induct)
  case (1 d xs)
  then show ?case by (auto split: if_splits dest!: first_error_member)
next
  case (2 d kvs)
  then show ?case by (auto split: if_splits dest!: first_error_member)
qed auto

lemma json_dumps_raises: "json_dumps p v = Inl e \<Longrightarrow> isinstance_Exception e"
  by (auto simp: json_dumps_def builtin_error_def isinstance_Exception_def
           split: option.splits dest: dumps_error_class)

lemma respond_raises:
  "json_dumps p (success d) = Inl e \<Longrightarrow> respond p True d None w = (Inl e, w)"
  by (simp add: respond_def envelope_def success_def pbind_def lift_def)

lemma dumps_error_nest: "d < n \<Longrightarrow> dumps_error d (nest n v) = Some RecursionError"
  by (induction n arbitrary: d) auto

lemma well_formed_failure: "well_formed (failure msg)"
  by (simp add: well_formed_def failure_def)

lemma well_formed_success: "well_formed (success d)"
  by (simp add: well_formed_def success_def)

lemma quiet_pret: "quiet P (pret x)"
  by (simp add: quiet_def pret_def)

lemma quiet_lift: "(\<And>e. r = Inl e \<Longrightarrow> P e) \<Longrightarrow> quiet P (lift r)"
  by (cases r) (simp_all add: quiet_def lift_def)

lemma quiet_host_call:
  "(\<And>s e. fst (f s) = Inl e \<Longrightarrow> P e) \<Longrightarrow> quiet P (host_call c wrap f)"
  unfolding quiet_def host_call_def
  by (auto split: prod.splits sum.splits) (metis fst_conv)

lemma quietD:
  "quiet P m \<Longrightarrow> m w = (r, w') \<Longrightarrow> stdout w' = stdout w \<and> (\<forall>e. r = Inl e \<longrightarrow> P e)"
  by (cases r) (auto simp: quiet_def dest!: spec[of _ w])

lemma quietI:
  "(\<And>w r w'. m w = (r, w') \<Longrightarrow> stdout w' = stdout w \<and> (\<forall>e. r = Inl e \<longrightarrow> P e)) \<Longrightarrow> quiet P m"
  unfolding quiet_def by (auto split: prod.splits sum.splits)

lemma onceD:
  "once P m \<Longrightarrow> m w = (r, w') \<Longrightarrow>
     (case r of
        Inl e \<Rightarrow> stdout w' = stdout w \<and> P e
      | Inr x \<Rightarrow> (\<exists>env. stdout w' = stdout w @ [env] \<and> well_formed env))"
  by (cases r) (auto simp: once_def dest!: spec[of _ w])

lemma onceI:
  "(\<And>w r w'. m w = (r, w') \<Longrightarrow>
     (case r of
        Inl e \<Rightarrow> stdout w' = stdout w \<and> P e
      | Inr x \<Rightarrow> (\<exists>env. stdout w' = stdout w @ [env] \<and> well_formed env))) \<Longrightarrow> once P m"
  unfolding once_def by (auto split: prod.splits sum.splits)

lemma quiet_pbind:
  assumes "quiet P m" and "\<And>x. quiet P (f x)"
  shows "quiet P (pbind m f)"
proof (rule quietI)
  fix w r w'
  assume run: "pbind m f w = (r, w')"
  obtain r1 w1 where m: "m w = (r1, w1)" by (cases "m w")
  note a = quietD[OF assms(1) m]
  show "stdout w' = stdout w \<and> (\<forall>e. r = Inl e \<longrightarrow> P e)"
  proof (cases r1)
    case (Inl e)
    with run m a show ?thesis by (auto simp: pbind_def)
  next
    case (Inr x)
    with run m have "f x w1 = (r, w')" by (simp add: pbind_def)
    from quietD[OF assms(2) this] a show ?thesis by simp
  qed
qed

lemma once_pbind:
  assumes "quiet P m" and "\<And>x. once P (f x)"
  shows "once P (pbind m f)"
proof (rule onceI)
  fix w r w'
  assume run: "pbind m f w = (r, w')"
  obtain r1 w1 where m: "m w = (r1, w1)" by (cases "m w")
  note a = quietD[OF assms(1) m]
  show "case r of
          Inl e \<Rightarrow> stdout w' = stdout w \<and> P e
        | Inr x \<Rightarrow> (\<exists>env. stdout w' = stdout w @ [env] \<and> well_formed env)"
  proof (cases r1)
    case (Inl e)
    with run m a show ?thesis by (auto simp: pbind_def)
  next
    case (Inr x)
    with run m have "f x w1 = (r, w')" by (simp add: pbind_def)
    from onceD[OF assms(2) this] a show ?thesis by (simp split: sum.splits)
  qed
qed

lemma once_respond_failure: "msg \<noteq> [] \<Longrightarrow> once P (respond p False PNone (Some msg))"
  by (rule onceI) (auto simp: respond_failure well_formed_failure)

lemma once_respond_success:
  assumes "\<And>e. isinstance_Exception e \<Longrightarrow> P e"
  shows "once P (respond p True d None)"
proof (cases "dumps_error (Suc (dumps_depth p)) (success d)")
  case None
  then show ?thesis
    by (intro onceI) (auto simp: respond_success accepted_def well_formed_success)
next
  case (Some c)
  with dumps_error_class[OF Some] assms[of "Exn c (builtin_msg p ''dumps'' (success d))"]
  show ?thesis
    by (intro onceI) (auto simp: respond_refused isinstance_Exception_def)
qed

lemma once_try_except:
  assumes "once P body" and "\<And>e. once Q (handler e)" and "\<And>e. P e \<Longrightarrow> \<not> catches e \<Longrightarrow> Q e"
  shows "once Q (try_except body catches handler)"
proof (rule onceI)
  fix w r w'
  assume run: "try_except body catches handler w = (r, w')"
  obtain r1 w1 where m: "body w = (r1, w1)" by (cases "body w")
  note a = onceD[OF assms(1) m]
  show "case r of
          Inl e \<Rightarrow> stdout w' = stdout w \<and> Q e
        | Inr x \<Rightarrow> (\<exists>env. stdout w' = stdout w @ [env] \<and> well_formed env)"
  proof (cases r1)
    case (Inl e)
    show ?thesis
    proof (cases "catches e")
      case True
      with run m Inl have "handler e w1 = (r, w')" by (simp add: try_except_def)
      from onceD[OF assms(2) this] a Inl show ?thesis by (simp split: sum.splits)
    next
      case False
      with run m Inl a assms(3)[of e] show ?thesis by (auto simp: try_except_def)
    qed
  next
    case (Inr x)
    with run m a show ?thesis by (auto simp: try_except_def)
  qed
qed

lemma map_of_in_keys: "map_of kvs k = Some v \<Longrightarrow> k \<in> fst ` set kvs"
  by (metis domI dom_map_of_conv_image_fst)

lemma float_to_int_raises: "float_to_int w = Inl c \<Longrightarrow> derives_Exception c"
  by (auto simp: float_to_int_def Let_def split: if_splits)

lemma py_int_raises: "py_int p v = Inl e \<Longrightarrow> isinstance_Exception e"
  by (cases v)
     (auto simp: builtin_error_def isinstance_Exception_def
           split: sum.splits option.splits dest: float_to_int_raises)

lemma pbind_assoc: "pbind (pbind m f) g w = pbind m (\<lambda>x. pbind (f x) g) w"
  by (simp add: pbind_def split: prod.splits sum.splits)

lemmas run_simps = pbind_assoc pbind_pret pbind_lift_Inr pbind_lift_Inl map_of_in_keys toNode_def Class_of_def render_def getitem_def
  kvalue_def kClass_def setValue_def knobs_def name_of_def xpos_def ypos_def setInput_def createNode_def
  pbind_host_call try_except_def respond_failure respond_success

lemma create_node_inputs_Cons:
  "create_node_inputs p nk node i (x # xs) w =
     (case nuke_toNode nk x (host w) of
        (Inl e, s1) \<Rightarrow> (Inl e, w\<lparr>host := s1, calls := calls w @ [(C_toNode x, Inl e)]\<rparr>)
      | (Inr None, s1) \<Rightarrow>
          (Inr False, w\<lparr>host := s1, calls := calls w @ [(C_toNode x, Inr (R_found None))],
                        stdout := stdout w @ [failure (''Input node not found: '' @ py_str p x)]\<rparr>)
      | (Inr (Some m), s1) \<Rightarrow>
          (case Node_setInput nk node i m s1 of
             (Inl e, s2) \<Rightarrow>
               (Inl e, w\<lparr>host := s2,
                  calls := calls w @ [(C_toNode x, Inr (R_found (Some m))), (C_setInput node i m, Inl e)]\<rparr>)
           | (Inr u, s2) \<Rightarrow>
               create_node_inputs p nk node (Suc i) xs
                 (w\<lparr>host := s2,
                    calls := calls w @ [(C_toNode x, Inr (R_found (Some m))),
                                        (C_setInput node i m, Inr R_unit)]\<rparr>)))"
  by (simp add: toNode_def setInput_def pbind_host_call split: prod.splits sum.splits option.splits)
     (simp add: pbind_def pret_def respond_failure)

declare create_node_inputs.simps(2) [simp del]

lemma create_node_inputs_completed:
  "create_node_inputs p nk node i xs w = (Inr True, w') \<Longrightarrow>
   \<exists>ms. length ms = length xs \<and> calls w' = calls w @ wiring node i xs ms \<and> stdout w' = stdout w"
proof (induction xs arbitrary: i w)
  case Nil
  then show ?case by (simp add: pret_def)
next
  case (Cons x xs)
  from Cons.prems obtain m s1 u s2 where
    t: "nuke_toNode nk x (host w) = (Inr (Some m), s1)" "Node_setInput nk node i m s1 = (Inr u, s2)"
    and rest: "create_node_inputs p nk node (Suc i) xs
                 (w\<lparr>host := s2, calls := calls w @ [(C_toNode x, Inr (R_found (Some m))),
                                                     (C_setInput node i m, Inr R_unit)]\<rparr>) = (Inr True, w')"
    by (auto simp: create_node_inputs_Cons split: prod.splits sum.splits option.splits)
  from Cons.IH[OF rest] obtain ms where
    "length ms = length xs"
    "calls w' = (calls w @ [(C_toNode x, Inr (R_found (Some m))), (C_setInput node i m, Inr R_unit)])
                 @ wiring node (Suc i) xs ms"
    "stdout w' = stdout w"
    by auto
  then show ?case by (intro exI[of _ "m # ms"]) simp
qed

lemma create_node_inputs_missing:
  "create_node_inputs p nk node i pre w = (Inr True, w1) \<Longrightarrow>
   nuke_toNode nk x (host w1) = (Inr None, s2) \<Longrightarrow>
   create_node_inputs p nk node i (pre @ x # post) w =
     (Inr False, w1\<lparr>host := s2, calls := calls w1 @ [(C_toNode x, Inr (R_found None))],
                    stdout := stdout w1 @ [failure (''Input node not found: '' @ py_str p x)]\<rparr>)"
proof (induction pre arbitrary: i w)
  case Nil
  then show ?case by (simp add: create_node_inputs_Cons pret_def)
next
  case (Cons y pre)
  from Cons.prems(1) obtain m s1 u s2' where
    t: "nuke_toNode nk y (host w) = (Inr (Some m), s1)" "Node_setInput nk node i m s1 = (Inr u, s2')"
    and rest: "create_node_inputs p nk node (Suc i) pre
                 (w\<lparr>host := s2', calls := calls w @ [(C_toNode y, Inr (R_found (Some m))),
                                                      (C_setInput node i m, Inr R_unit)]\<rparr>) = (Inr True, w1)"
    by (auto simp: create_node_inputs_Cons split: prod.splits sum.splits option.splits)
  from Cons.IH[OF rest Cons.prems(2)] t show ?case
    by (simp add: create_node_inputs_Cons)
qed

lemma create_node_run:
  assumes "map_of kvs ''nodeType'' = Some node_type"
  shows "create_node p (PDict kvs) nk w =
           try_except
             (create_node_try p nk node_type
                (case map_of kvs ''name'' of None \<Rightarrow> PNone | Some v \<Rightarrow> v)
                (case map_of kvs ''inputs'' of None \<Rightarrow> PList [] | Some v \<Rightarrow> v))
             isinstance_Exception
             (\<lambda>e. respond p False PNone (Some (''Error creating node: '' @ exn_str e))) w"
  using assms by (simp add: create_node_def pbind_lift_Inr map_of_in_keys)

lemma dict_set_entries:
  "(key, v) \<in> set (dict_set acc k x) \<Longrightarrow> (key, v) \<in> set acc \<or> (key = k \<and> v = x)"
  by (induction acc) (auto split: if_splits)

lemma get_node_knob_run:
  assumes "get_node_knob nk node knob acc w = (r, w')"
  shows "\<exists>evs. calls w' = calls w @ evs \<and> stdout w' = stdout w \<and>
           (r = Inr acc \<or> (\<exists>v. r = Inr (dict_set acc knob v) \<and> scalar_read nk node evs knob v))"
proof -
  obtain r1 s1 where g: "Node_getitem nk node (PStr knob) (host w) = (r1, s1)"
    by (cases "Node_getitem nk node (PStr knob) (host w)")
  show ?thesis
  proof (cases r1)
    case (Inl e)
    with assms g show ?thesis
      by (auto simp: get_node_knob_def try_except_def bare_except_def getitem_def pbind_host_call
            pret_def)
  next
    case (Inr k)
    obtain r2 s2 where c: "Knob_Class nk k s1 = (r2, s2)" by (cases "Knob_Class nk k s1")
    show ?thesis
    proof (cases r2)
      case (Inl e)
      with assms g c \<open>r1 = Inr k\<close> show ?thesis
        by (auto simp: get_node_knob_def try_except_def bare_except_def getitem_def kClass_def
              pbind_host_call pret_def)
    next
      case kind: (Inr kind)
      show ?thesis
      proof (cases "kind \<in> set string_knobs")
        case True
        obtain r3 s3 where v: "Knob_value nk k s2 = (r3, s3)" by (cases "Knob_value nk k s2")
        show ?thesis
        proof (cases r3)
          case (Inl e)
          with assms g c v \<open>r1 = Inr k\<close> kind True show ?thesis
            by (auto simp: get_node_knob_def try_except_def bare_except_def getitem_def kClass_def
                  kvalue_def pbind_host_call pret_def)
        next
          case (Inr val)
          with g c v \<open>r1 = Inr k\<close> kind True have
            "scalar_read nk node
               [(C_getitem node (PStr knob), Inr (R_knob k)), (C_knob_Class k, Inr (R_val kind)),
                (C_value k, Inr (R_val val))] knob val"
            unfolding scalar_read_def by (intro exI[of _ k] exI[of _ kind]) auto
          with assms g c v \<open>r1 = Inr k\<close> kind True Inr show ?thesis
            by (auto simp: get_node_knob_def try_except_def bare_except_def getitem_def kClass_def
                  kvalue_def pbind_host_call pret_def)
        qed
      next
        case False
        obtain r2' s2' where c': "Knob_Class nk k s2 = (r2', s2')" by (cases "Knob_Class nk k s2")
        show ?thesis
        proof (cases r2')
          case (Inl e)
          with assms g c c' \<open>r1 = Inr k\<close> kind False show ?thesis
            by (auto simp: get_node_knob_def try_except_def bare_except_def getitem_def kClass_def
                  pbind_host_call pret_def)
        next
          case kind': (Inr kind')
          show ?thesis
          proof (cases "kind' \<in> set number_knobs")
            case no: False
            with assms g c c' \<open>r1 = Inr k\<close> kind kind' False show ?thesis
              by (auto simp: get_node_knob_def try_except_def bare_except_def getitem_def kClass_def
                    pbind_host_call pret_def)
          next
            case yes: True
            obtain r3 s3 where v: "Knob_value nk k s2' = (r3, s3)" by (cases "Knob_value nk k s2'")
            show ?thesis
            proof (cases r3)
              case (Inl e)
              with assms g c c' v \<open>r1 = Inr k\<close> kind kind' False yes show ?thesis
                by (auto simp: get_node_knob_def try_except_def bare_except_def getitem_def kClass_def
                      kvalue_def pbind_host_call pret_def)
            next
              case (Inr val)
              with g c c' v \<open>r1 = Inr k\<close> kind kind' yes have
                "scalar_read nk node
                   [(C_getitem node (PStr knob), Inr (R_knob k)), (C_knob_Class k, Inr (R_val kind)),
                    (C_knob_Class k, Inr (R_val kind')), (C_value k, Inr (R_val val))] knob val"
                unfolding scalar_read_def by (intro exI[of _ k] exI[of _ kind']) auto
              with assms g c c' v \<open>r1 = Inr k\<close> kind kind' False yes Inr show ?thesis
                by (auto simp: get_node_knob_def try_except_def bare_except_def getitem_def kClass_def
                      kvalue_def pbind_host_call pret_def)
            qed
          qed
        qed
      qed
    qed
  qed
qed

lemma scalar_read_mono: "scalar_read nk node evs key v \<Longrightarrow> set evs \<subseteq> set evs' \<Longrightarrow> scalar_read nk node evs' key v"
  unfolding scalar_read_def by blast

lemma get_node_knobs_run:
  "get_node_knobs nk node names acc w = (r, w') \<Longrightarrow>
   \<exists>kn evs. r = Inr kn \<and> calls w' = calls w @ evs \<and> stdout w' = stdout w \<and>
     (\<forall>(key, v) \<in> set kn. (key, v) \<in> set acc \<or> (key \<in> set names \<and> scalar_read nk node evs key v))"
proof (induction names arbitrary: acc w)
  case Nil
  then show ?case by (auto simp: pret_def)
next
  case (Cons knob rest)
  obtain r1 w1 where step: "get_node_knob nk node knob acc w = (r1, w1)"
    by (cases "get_node_knob nk node knob acc w")
  from get_node_knob_run[OF step] obtain evs1 where
    e1: "calls w1 = calls w @ evs1" "stdout w1 = stdout w"
    and r1: "r1 = Inr acc \<or> (\<exists>v. r1 = Inr (dict_set acc knob v) \<and> scalar_read nk node evs1 knob v)"
    by blast
  from r1 obtain acc1 where acc1: "r1 = Inr acc1" by blast
  with Cons.prems step have "get_node_knobs nk node rest acc1 w1 = (r, w')"
    by (simp add: pbind_def)
  from Cons.IH[OF this] obtain kn evs2 where
    e2: "r = Inr kn" "calls w' = calls w1 @ evs2" "stdout w' = stdout w1"
    and kn: "\<forall>(key, v) \<in> set kn.
        (key, v) \<in> set acc1 \<or> (key \<in> set rest \<and> scalar_read nk node evs2 key v)"
    by blast
  have "(key, v) \<in> set acc \<or> (key \<in> set (knob # rest) \<and> scalar_read nk node (evs1 @ evs2) key v)"
    if mem: "(key, v) \<in> set kn" for key v
  proof (cases "(key, v) \<in> set acc")
    case True
    then show ?thesis by simp
  next
    case notacc: False
    from kn mem consider (old) "(key, v) \<in> set acc1"
      | (new) "key \<in> set rest" "scalar_read nk node evs2 key v"
      by blast
    then show ?thesis
    proof cases
      case old
      with r1 acc1 notacc obtain v' where
        a: "acc1 = dict_set acc knob v'" "scalar_read nk node evs1 knob v'"
        by auto
      from old a(1) notacc dict_set_entries[of key v acc knob v'] have "key = knob" "v = v'"
        by auto
      with a(2) scalar_read_mono[of nk node evs1 knob v' "evs1 @ evs2"] show ?thesis by auto
    next
      case new
      with scalar_read_mono[of nk node evs2 key v "evs1 @ evs2"] show ?thesis by auto
    qed
  qed
  then have "\<forall>(key, v) \<in> set kn.
        (key, v) \<in> set acc \<or> (key \<in> set (knob # rest) \<and> scalar_read nk node (evs1 @ evs2) key v)"
    by blast
  with e1 e2 show ?case by (intro exI[of _ kn] exI[of _ "evs1 @ evs2"]) simp
qed

lemma py_contains_raises: "py_contains p a k = Inl e \<Longrightarrow> isinstance_Exception e"
  by (cases a) (auto simp: builtin_error_def isinstance_Exception_def)

lemma py_getitem_raises: "py_getitem p a k = Inl e \<Longrightarrow> isinstance_Exception e"
  by (cases a) (auto simp: builtin_error_def isinstance_Exception_def split: option.splits)

lemma py_get_raises: "py_get p a k d = Inl e \<Longrightarrow> isinstance_Exception e"
  by (cases a) (auto simp: builtin_error_def isinstance_Exception_def)

lemma py_iter_raises: "py_iter p a = Inl e \<Longrightarrow> isinstance_Exception e"
  by (cases a) (auto simp: builtin_error_def isinstance_Exception_def)

lemma py_in_keys_raises: "py_in_keys p a names = Inl e \<Longrightarrow> isinstance_Exception e"
  by (cases a) (auto simp: builtin_error_def isinstance_Exception_def)

lemma quiet_host:
  assumes "host_raises_only P nk"
  shows "quiet P (createNode nk t)" "quiet P (toNode nk nm)" "quiet P (render nk n a b)"
    "quiet P (setInput nk n i m)" "quiet P (name_of nk n)" "quiet P (Class_of nk n)"
    "quiet P (xpos nk n)" "quiet P (ypos nk n)" "quiet P (knobs nk n)" "quiet P (getitem nk n key)"
    "quiet P (setValue nk k v)" "quiet P (kClass nk k)" "quiet P (kvalue nk k)"
  using assms
  unfolding host_raises_only_def raises_only_def createNode_def toNode_def render_def setInput_def
    name_of_def Class_of_def xpos_def ypos_def knobs_def getitem_def setValue_def kClass_def kvalue_def
  by (auto intro!: quiet_host_call)

lemma once_if: "(c \<Longrightarrow> once P a) \<Longrightarrow> (\<not> c \<Longrightarrow> once P b) \<Longrightarrow> once P (if c then a else b)"
  by simp

lemma create_node_inputs_out:
  assumes "host_raises_only P nk"
  shows "create_node_inputs p nk node i xs w = (r, w') \<Longrightarrow>
     (case r of
        Inl e \<Rightarrow> stdout w' = stdout w \<and> P e
      | Inr completed \<Rightarrow>
          if completed then stdout w' = stdout w
          else (\<exists>env. stdout w' = stdout w @ [env] \<and> well_formed env))"
proof (induction xs arbitrary: i w)
  case Nil
  then show ?case by (auto simp: pret_def)
next
  case (Cons x xs)
  from assms have h: "\<And>s e s'. nuke_toNode nk x s = (Inl e, s') \<Longrightarrow> P e"
    "\<And>m s e s'. Node_setInput nk node i m s = (Inl e, s') \<Longrightarrow> P e"
    by (auto simp: host_raises_only_def raises_only_def dest: arg_cong[where f=fst])
  obtain r1 s1 where t: "nuke_toNode nk x (host w) = (r1, s1)" by (cases "nuke_toNode nk x (host w)")
  show ?case
  proof (cases r1)
    case (Inl e)
    with Cons.prems t h(1)[of "host w" e s1] show ?thesis
      by (auto simp: create_node_inputs_Cons)
  next
    case (Inr found)
    show ?thesis
    proof (cases found)
      case None
      with Cons.prems t Inr show ?thesis
        by (auto simp: create_node_inputs_Cons well_formed_failure)
    next
      case (Some m)
      obtain r2 s2 where u: "Node_setInput nk node i m s1 = (r2, s2)"
        by (cases "Node_setInput nk node i m s1")
      show ?thesis
      proof (cases r2)
        case (Inl e)
        with Cons.prems t Inr Some u h(2)[of m s1 e s2] show ?thesis
          by (auto simp: create_node_inputs_Cons)
      next
        case Inr2: (Inr v)
        with Cons.prems t Inr Some u have
          "create_node_inputs p nk node (Suc i) xs
             (w\<lparr>host := s2, calls := calls w @ [(C_toNode x, Inr (R_found (Some m))),
                                                 (C_setInput node i m, Inr R_unit)]\<rparr>) = (r, w')"
          by (simp add: create_node_inputs_Cons)
        from Cons.IH[OF this] show ?thesis by (auto split: sum.splits)
      qed
    qed
  qed
qed

lemma once_create_node_inputs:
  assumes "host_raises_only P nk" and "once P K"
  shows "once P (pbind (create_node_inputs p nk node i xs)
                   (\<lambda>completed. if completed then K else pret ()))"
proof (rule onceI)
  fix w r w'
  assume run: "pbind (create_node_inputs p nk node i xs)
                 (\<lambda>completed. if completed then K else pret ()) w = (r, w')"
  obtain r1 w1 where l: "create_node_inputs p nk node i xs w = (r1, w1)"
    by (cases "create_node_inputs p nk node i xs w")
  note out = create_node_inputs_out[OF assms(1) l]
  show "case r of
          Inl e \<Rightarrow> stdout w' = stdout w \<and> P e
        | Inr x \<Rightarrow> (\<exists>env. stdout w' = stdout w @ [env] \<and> well_formed env)"
  proof (cases r1)
    case (Inl e)
    with run l out show ?thesis by (auto simp: pbind_def)
  next
    case (Inr completed)
    show ?thesis
    proof (cases completed)
      case True
      with run l Inr have "K w1 = (r, w')" by (simp add: pbind_def)
      from onceD[OF assms(2) this] out Inr True show ?thesis by (simp split: sum.splits)
    next
      case False
      with run l Inr out show ?thesis by (auto simp: pbind_def pret_def)
    qed
  qed
qed

lemma quiet_get_node_knobs: "quiet P (get_node_knobs nk node names acc)"
  by (rule quietI) (auto dest: get_node_knobs_run)

lemma quiet_node_info: "host_raises_only P nk \<Longrightarrow> quiet P (node_info nk node)"
  unfolding node_info_def by (intro quiet_pbind quiet_host quiet_pret)

lemma once_create_node:
  assumes exc: "\<And>e. isinstance_Exception e \<Longrightarrow> P e" and hst: "host_raises_only P nk"
  shows "once P (create_node p args nk)"
proof -
  have body: "once P (create_node_try p nk node_type name inputs)" for node_type name inputs
    unfolding create_node_try_def
    by (auto intro!: once_pbind once_create_node_inputs[OF hst] quiet_pbind quiet_host[OF hst]
          quiet_pret quiet_lift quiet_node_info[OF hst] once_respond_success exc
          dest: py_iter_raises simp: isinstance_Exception_def)
  show ?thesis
    unfolding create_node_def
    by (intro once_pbind once_if once_respond_failure once_try_except[OF body] quiet_lift)
       (auto dest: py_contains_raises py_getitem_raises py_get_raises exc)
qed

lemma once_set_knob_value:
  assumes exc: "\<And>e. isinstance_Exception e \<Longrightarrow> P e" and hst: "host_raises_only P nk"
  shows "once P (set_knob_value p args nk)"
proof -
  have body: "once P (set_knob_value_try p nk node_name knob_name val)" for node_name knob_name val
    unfolding set_knob_value_try_def
  proof (intro once_pbind)
    show "quiet P (toNode nk node_name)" by (rule quiet_host[OF hst])
    show "once P (case found of
       None \<Rightarrow> respond p False PNone (Some (''Node not found: '' @ py_str p node_name))
     | Some node \<Rightarrow>
         pbind (knobs nk node) (\<lambda>names.
         pbind (lift (py_in_keys p knob_name names)) (\<lambda>present.
         if \<not> present
         then respond p False PNone (Some (''Knob not found: '' @ py_str p knob_name))
         else
           pbind (getitem nk node knob_name) (\<lambda>k.
           pbind (setValue nk k val) (\<lambda>_.
           respond p True
             (PDict [(''node'', node_name), (''knob'', knob_name), (''value'', val)]) None)))))" for found
      by (cases found)
         (auto intro!: once_pbind once_if once_respond_failure once_respond_success quiet_lift
            quiet_host[OF hst] exc
            dest: py_in_keys_raises simp: isinstance_Exception_def)
  qed
  show ?thesis
    unfolding set_knob_value_def
    by (intro once_pbind once_if once_respond_failure once_try_except[OF body] quiet_lift)
       (auto dest: py_contains_raises py_getitem_raises py_get_raises exc)
qed

lemma once_get_node:
  assumes exc: "\<And>e. isinstance_Exception e \<Longrightarrow> P e" and hst: "host_raises_only P nk"
  shows "once P (get_node p args nk)"
proof -
  have body: "once P (get_node_try p nk node_name)" for node_name
    unfolding get_node_try_def
  proof (intro once_pbind)
    show "quiet P (toNode nk node_name)" by (rule quiet_host[OF hst])
    show "once P (case found of
       None \<Rightarrow> respond p False PNone (Some (''Node not found: '' @ py_str p node_name))
     | Some node \<Rightarrow>
         pbind (node_info nk node) (\<lambda>info.
         pbind (knobs nk node) (\<lambda>names.
         pbind (get_node_knobs nk node names []) (\<lambda>kn.
         respond p True (PDict (info @ [(''knobs'', PDict kn)])) None))))" for found
      by (cases found)
         (auto intro!: once_pbind once_respond_failure once_respond_success quiet_node_info[OF hst]
            quiet_get_node_knobs quiet_host[OF hst] exc
            simp: isinstance_Exception_def)
  qed
  show ?thesis
    unfolding get_node_def
    by (intro once_pbind once_if once_respond_failure once_try_except[OF body] quiet_lift)
       (auto dest: py_contains_raises py_getitem_raises py_get_raises exc)
qed

lemma once_execute:
  assumes exc: "\<And>e. isinstance_Exception e \<Longrightarrow> P e" and hst: "host_raises_only P nk"
  shows "once P (execute p args nk)"
proof -
  have body: "once P (execute_try p nk write_node_name frame_start frame_end)"
    for write_node_name frame_start frame_end
    unfolding execute_try_def
  proof (intro once_pbind)
    show "quiet P (toNode nk write_node_name)" by (rule quiet_host[OF hst])
    show "once P (case found of
       None \<Rightarrow>
         respond p False PNone (Some (''Write node not found: '' @ py_str p write_node_name))
     | Some write_node \<Rightarrow>
         pbind (Class_of nk write_node) (\<lambda>c.
         if c \<noteq> PStr ''Write''
         then respond p False PNone
                (Some (''Node '' @ py_str p write_node_name @ '' is not a Write node''))
         else
           pbind (lift (py_int p frame_start)) (\<lambda>a.
           pbind (lift (py_int p frame_end)) (\<lambda>b.
           pbind (render nk write_node a b) (\<lambda>_.
           pbind (getitem nk write_node (PStr ''file'')) (\<lambda>k.
           pbind (kvalue nk k) (\<lambda>path.
           respond p True
             (PDict [(''node'', write_node_name), (''rendered'', PBool True),
                     (''frameRange'', PDict [(''start'', frame_start), (''end'', frame_end)]),
                     (''outputPath'', path)]) None)))))))" for found
      by (cases found)
         (auto intro!: once_pbind once_if once_respond_failure once_respond_success quiet_lift
            quiet_host[OF hst] exc
            dest: py_int_raises simp: isinstance_Exception_def)
  qed
  show ?thesis
    unfolding execute_def
    by (intro once_pbind once_if once_respond_failure once_try_except[OF body] quiet_lift)
       (auto dest: py_contains_raises py_getitem_raises py_get_raises exc)
qed

lemma once_dispatch:
  assumes exc: "\<And>e. isinstance_Exception e \<Longrightarrow> P e" and hst: "host_raises_only P nk"
  shows "once P (dispatch p command args nk)"
  unfolding dispatch_def
  by (auto intro!: once_create_node once_set_knob_value once_get_node once_execute
        once_respond_failure exc hst)

lemma once_lift_Inl: "P e \<Longrightarrow> once P (lift (Inl e))"
  by (rule onceI) (auto simp: lift_def)

lemma once_main:
  assumes exc: "\<And>e. isinstance_Exception e \<Longrightarrow> P e"
    and loads: "\<And>e. 2 < length argv \<Longrightarrow> json_loads p (argv ! 2) = Inl e \<Longrightarrow>
                  \<not> isinstance_JSONDecodeError e \<Longrightarrow> Q e"
    and imp: "\<And>e. import_nuke = Inl e \<Longrightarrow> P e"
    and hst: "\<And>nk. import_nuke = Inr nk \<Longrightarrow> host_raises_only P nk"
    and esc: "\<And>e. P e \<Longrightarrow> \<not> isinstance_Exception e \<Longrightarrow> Q e"
  shows "once Q (main p import_nuke argv)"
proof (cases "length argv < 2")
  case True
  then show ?thesis by (simp add: main_def once_respond_failure)
next
  case False
  have body: "once P (case import_nuke of
                  Inl e \<Rightarrow>
                    if isinstance_ImportError e
                    then respond p False PNone
                           (Some ''Failed to import nuke module. Make sure this script is run within Nuke.'')
                    else lift (Inl e)
                | Inr nk \<Rightarrow> dispatch p command args nk)" for args command
  proof (cases import_nuke)
    case (Inl e)
    then show ?thesis by (auto intro!: once_respond_failure once_lift_Inl imp)
  next
    case (Inr nk)
    then show ?thesis by (simp add: once_dispatch[OF exc hst])
  qed
  have guarded: "once Q (try_except
               (case import_nuke of
                  Inl e \<Rightarrow>
                    if isinstance_ImportError e
                    then respond p False PNone
                           (Some ''Failed to import nuke module. Make sure this script is run within Nuke.'')
                    else lift (Inl e)
                | Inr nk \<Rightarrow> dispatch p command args nk)
               isinstance_Exception
               (\<lambda>e. respond p False PNone
                       (Some (''Error executing command: '' @ exn_str e @ [CHR 0x0A] @ format_exc p e))))"
    for args command
    by (rule once_try_except[OF body]) (auto intro!: once_respond_failure esc)
  show ?thesis
  proof (cases "if length argv > 2 then json_loads p (argv ! 2) else Inr (PDict [])")
    case (Inl e)
    with False loads[of e] show ?thesis
      by (auto simp: main_def Let_def intro!: once_respond_failure once_lift_Inl split: if_splits)
  next
    case (Inr args)
    with False have "main p import_nuke argv =
        try_except
               (case import_nuke of
                  Inl e \<Rightarrow>
                    if isinstance_ImportError e
                    then respond p False PNone
                           (Some ''Failed to import nuke module. Make sure this script is run within Nuke.'')
                    else lift (Inl e)
                | Inr nk \<Rightarrow> dispatch p (argv ! 1) args nk)
               isinstance_Exception
               (\<lambda>e. respond p False PNone
                       (Some (''Error executing command: '' @ exn_str e @ [CHR 0x0A] @ format_exc p e)))"
      by (simp add: main_def Let_def del: One_nat_def)
    then show ?thesis by (simp only: guarded)
  qed
qed

lemmas demo_simps = demo_nuke_def demo_py_def demo_knobs_def session0_def world0_def execute_args_def
  interrupted_nuke_def

lemma demo_nuke_raises: "host_raises_only isinstance_Exception demo_nuke"
  by (auto simp: host_raises_only_def raises_only_def demo_nuke_def isinstance_Exception_def
           split: pyval.splits option.splits if_splits)

section \<open>The claims\<close>

subsection \<open>Claim C1\<close>

text \<open>
  Claim C1, as the code has it. Whatever the command name, the arguments and the host
  do, \<^verbatim>\<open>main\<close> prints exactly one envelope and returns normally, provided that
  \<^verbatim>\<open>json.loads\<close> raises nothing but \<^verbatim>\<open>JSONDecodeError\<close> on the second argument and that
  every exception raised by \<^verbatim>\<open>import nuke\<close> or by a host call is an instance of
  \<^verbatim>\<open>Exception\<close>: the handlers and \<^verbatim>\<open>main\<close> catch \<^verbatim>\<open>Exception\<close>, not \<^verbatim>\<open>BaseException\<close>.
\<close>

theorem main_responds_once:
  assumes "2 < length argv \<longrightarrow> (\<forall>e. json_loads p (argv ! 2) = Inl e \<longrightarrow> isinstance_JSONDecodeError e)"
    and "case import_nuke of
           Inl e \<Rightarrow> isinstance_Exception e
         | Inr nk \<Rightarrow> host_raises_only isinstance_Exception nk"
  shows "\<exists>w' env. main p import_nuke argv w = (Inr (), w') \<and> stdout w' = stdout w @ [env]"
proof -
  have "once (\<lambda>e. False) (main p import_nuke argv)"
    using assms by (intro once_main[where P = isinstance_Exception]) auto
  obtain r w' where run: "main p import_nuke argv w = (r, w')"
    by (cases "main p import_nuke argv w")
  from onceD[OF \<open>once (\<lambda>e. False) (main p import_nuke argv)\<close> run] run show ?thesis
    by (cases r) auto
qed

text \<open>
  The hypotheses of C1 hold for the small host, and \<^verbatim>\<open>execute\<close> with the arguments
  \<open>execute_args\<close> prints one envelope there.
\<close>

theorem main_responds_once_witness:
  "json_loads demo_py ([''nuke_bridge.py'', ''execute'', execute_args] ! 2) =
     Inr (PDict [(''writeNodeName'', PStr ''Write1''), (''frameRangeStart'', PInt 1),
                 (''frameRangeEnd'', PInt 10)]) \<and>
   host_raises_only isinstance_Exception demo_nuke \<and>
   (\<exists>w' env. main demo_py (Inr demo_nuke) [''nuke_bridge.py'', ''execute'', execute_args] world0 =
               (Inr (), w') \<and>
             stdout w' = stdout world0 @ [env])"
proof -
  have l: "json_loads demo_py ([''nuke_bridge.py'', ''execute'', execute_args] ! 2) =
     Inr (PDict [(''writeNodeName'', PStr ''Write1''), (''frameRangeStart'', PInt 1),
                 (''frameRangeEnd'', PInt 10)])"
    by (simp add: demo_py_def execute_args_def)
  then have h1: "2 < length [''nuke_bridge.py'', ''execute'', execute_args] \<longrightarrow>
      (\<forall>e. json_loads demo_py ([''nuke_bridge.py'', ''execute'', execute_args] ! 2) = Inl e \<longrightarrow>
           isinstance_JSONDecodeError e)"
    by simp
  have h2: "case Inr demo_nuke of
      Inl e \<Rightarrow> isinstance_Exception e
    | Inr nk \<Rightarrow> host_raises_only isinstance_Exception nk"
    by (simp add: demo_nuke_raises)
  from main_responds_once[OF h1 h2, of world0] l demo_nuke_raises show ?thesis by blast
qed

text \<open>
  Claim C1 as stated fails for an exception that is not an instance of \<^verbatim>\<open>Exception\<close>:
  when the render of \<^verbatim>\<open>execute\<close> raises \<^verbatim>\<open>KeyboardInterrupt\<close>, the exception leaves
  \<^verbatim>\<open>main\<close> and nothing has been printed.
\<close>

theorem interrupted_render:
  "fst (main demo_py (Inr interrupted_nuke) [''nuke_bridge.py'', ''execute'', execute_args] world0) =
     Inl (Exn KeyboardInterrupt []) \<and>
   stdout (snd (main demo_py (Inr interrupted_nuke) [''nuke_bridge.py'', ''execute'', execute_args] world0)) = []"
  by (simp add: main_def dispatch_def execute_def execute_try_def run_simps demo_simps
        isinstance_Exception_def)

subsection \<open>Claim C2\<close>

text \<open>
  Claim C2, as the code has it. With no command argument \<^verbatim>\<open>main\<close> prints the envelope
  with the three entries \<^verbatim>\<open>success\<close> (false), \<^verbatim>\<open>data\<close> (None) and \<^verbatim>\<open>error\<close>
  (\<^verbatim>\<open>No command specified\<close>) and returns; it makes no host call.
\<close>

theorem no_command:
  "length argv < 2 \<Longrightarrow>
   main p import_nuke argv w =
     (Inr (), w\<lparr>stdout := stdout w @
         [PDict [(''success'', PBool False), (''data'', PNone),
                 (''error'', PStr ''No command specified'')]]\<rparr>)"
  by (simp add: main_def respond_failure failure_def)

text \<open>
  C2 for \<^verbatim>\<open>sys.argv\<close> holding the script's name only.
\<close>

theorem no_command_witness:
  "length [''nuke_bridge.py''] < 2 \<and>
   main demo_py (Inr demo_nuke) [''nuke_bridge.py''] world0 =
     (Inr (), world0\<lparr>stdout := stdout world0 @
         [PDict [(''success'', PBool False), (''data'', PNone),
                 (''error'', PStr ''No command specified'')]]\<rparr>)"
  using no_command[of "[''nuke_bridge.py'']" demo_py "Inr demo_nuke" world0] by simp

text \<open>
  Claim C2 as stated fails: the envelope printed when no command is given is not the
  dict of \<^verbatim>\<open>success\<close> and \<^verbatim>\<open>error\<close> alone, it has a \<^verbatim>\<open>data\<close> entry too.
\<close>

theorem no_command_has_data:
  "stdout (snd (main demo_py (Inr demo_nuke) [''nuke_bridge.py''] world0)) =
     [PDict [(''success'', PBool False), (''data'', PNone), (''error'', PStr ''No command specified'')]] \<and>
   stdout (snd (main demo_py (Inr demo_nuke) [''nuke_bridge.py''] world0)) \<noteq>
     [PDict [(''success'', PBool False), (''error'', PStr ''No command specified'')]]"
  by (simp add: main_def respond_def envelope_def json_dumps_def pbind_def lift_def print_def world0_def)

subsection \<open>Claim C3\<close>

text \<open>
  Claim C3. For each of the four commands, when the argument dict lacks a required key,
  the handler prints the failure envelope that names the first missing key, in the
  documented order, and returns with the host session untouched and no host call made:
  the state differs from the initial one in its output only.
\<close>

theorem missing_key:
  assumes "find (\<lambda>k. k \<notin> set (map fst kvs)) (required_keys command) = Some k"
  shows "dispatch p command (PDict kvs) nk w =
           (Inr (), w\<lparr>stdout := stdout w @ [failure (k @ '' parameter is required'')]\<rparr>)"
proof -
  consider "command = ''createNode''" | "command = ''setKnobValue''" | "command = ''getNode''"
    | "command = ''execute''"
    | "command \<noteq> ''createNode''" "command \<noteq> ''setKnobValue''" "command \<noteq> ''getNode''"
      "command \<noteq> ''execute''"
    by blast
  then show ?thesis
  proof cases
    case 1
    with assms show ?thesis
      by (auto simp: required_keys_def dispatch_def create_node_def pbind_lift_Inr respond_failure
               split: if_splits)
  next
    case 2
    with assms show ?thesis
      by (auto simp: required_keys_def dispatch_def set_knob_value_def pbind_lift_Inr respond_failure
               split: if_splits)
  next
    case 3
    with assms show ?thesis
      by (auto simp: required_keys_def dispatch_def get_node_def pbind_lift_Inr respond_failure
               split: if_splits)
  next
    case 4
    with assms show ?thesis
      by (auto simp: required_keys_def dispatch_def execute_def pbind_lift_Inr respond_failure
               split: if_splits)
  next
    case 5
    with assms show ?thesis by (simp add: required_keys_def)
  qed
qed

text \<open>
  C3 on one argument dict for each of the four commands.
\<close>

theorem missing_key_witness:
  "find (\<lambda>k. k \<notin> set (map fst [])) (required_keys ''createNode'') = Some ''nodeType'' \<and>
   dispatch demo_py ''createNode'' (PDict []) demo_nuke world0 =
     (Inr (), world0\<lparr>stdout := stdout world0 @ [failure ''nodeType parameter is required'']\<rparr>) \<and>
   find (\<lambda>k. k \<notin> set (map fst [(''nodeName'', PStr ''Read1''), (''value'', PInt 1)]))
     (required_keys ''setKnobValue'') = Some ''knobName'' \<and>
   dispatch demo_py ''setKnobValue'' (PDict [(''nodeName'', PStr ''Read1''), (''value'', PInt 1)])
     demo_nuke world0 =
     (Inr (), world0\<lparr>stdout := stdout world0 @ [failure ''knobName parameter is required'']\<rparr>) \<and>
   find (\<lambda>k. k \<notin> set (map fst [(''name'', PStr ''Read1'')])) (required_keys ''getNode'') =
     Some ''nodeName'' \<and>
   dispatch demo_py ''getNode'' (PDict [(''name'', PStr ''Read1'')]) demo_nuke world0 =
     (Inr (), world0\<lparr>stdout := stdout world0 @ [failure ''nodeName parameter is required'']\<rparr>) \<and>
   find (\<lambda>k. k \<notin> set (map fst [(''writeNodeName'', PStr ''Write1''), (''frameRangeStart'', PInt 1)]))
     (required_keys ''execute'') = Some ''frameRangeEnd'' \<and>
   dispatch demo_py ''execute''
     (PDict [(''writeNodeName'', PStr ''Write1''), (''frameRangeStart'', PInt 1)]) demo_nuke world0 =
     (Inr (), world0\<lparr>stdout := stdout world0 @ [failure ''frameRangeEnd parameter is required'']\<rparr>)"
proof -
  have a: "find (\<lambda>k. k \<notin> set (map fst ([] :: (string \<times> pyval) list))) (required_keys ''createNode'') =
             Some ''nodeType''"
    by (simp add: required_keys_def)
  have b: "find (\<lambda>k. k \<notin> set (map fst [(''nodeName'', PStr ''Read1''), (''value'', PInt 1)]))
             (required_keys ''setKnobValue'') = Some ''knobName''"
    by (simp add: required_keys_def)
  have c: "find (\<lambda>k. k \<notin> set (map fst [(''name'', PStr ''Read1'')])) (required_keys ''getNode'') =
             Some ''nodeName''"
    by (simp add: required_keys_def)
  have d: "find (\<lambda>k. k \<notin> set (map fst [(''writeNodeName'', PStr ''Write1''), (''frameRangeStart'', PInt 1)]))
             (required_keys ''execute'') = Some ''frameRangeEnd''"
    by (simp add: required_keys_def)
  from missing_key[OF a, of demo_py demo_nuke world0] missing_key[OF b, of demo_py demo_nuke world0]
    missing_key[OF c, of demo_py demo_nuke world0] missing_key[OF d, of demo_py demo_nuke world0]
    a b c d
  show ?thesis by simp
qed

subsection \<open>Claim C4\<close>

text \<open>
  Claim C4. \<^verbatim>\<open>createNode\<close> with the inputs list \<open>pre @ x # post\<close>: when the node has
  been created (and renamed, if a name was given), the inputs of \<open>pre\<close> have all been
  found and wired, and the lookup of \<open>x\<close> finds nothing, the handler prints the failure
  envelope naming \<open>x\<close> and returns. The lookup of \<open>x\<close> is its last host call, so that
  no input at the index of \<open>x\<close> or after it is wired and the created node is not
  removed; and the calls made for \<open>pre\<close> are, input after input in list order, the
  lookup and the wiring to the slot of that index.
\<close>

theorem create_node_missing_input:
  assumes "map_of kvs ''nodeType'' = Some node_type"
    and "map_of kvs ''inputs'' = Some (PList (pre @ x # post))"
    and "name = (case map_of kvs ''name'' of None \<Rightarrow> PNone | Some v \<Rightarrow> v)"
    and "nuke_createNode nk node_type (host w) = (Inr node, s1)"
    and "if py_truthy name
         then Node_getitem nk node (PStr ''name'') s1 = (Inr k, s1') \<and>
              Knob_setValue nk k name s1' = (Inr (), s2)
         else s2 = s1"
    and "w2 = w\<lparr>host := s2,
                 calls := calls w @ (C_createNode node_type, Inr (R_node node)) #
                   (if py_truthy name
                    then [(C_getitem node (PStr ''name''), Inr (R_knob k)),
                          (C_setValue k name, Inr R_unit)]
                    else [])\<rparr>"
    and "create_node_inputs p nk node 0 pre w2 = (Inr True, w3)"
    and "nuke_toNode nk x (host w3) = (Inr None, s4)"
  shows "create_node p (PDict kvs) nk w =
           (Inr (), w3\<lparr>host := s4,
              calls := calls w3 @ [(C_toNode x, Inr (R_found None))],
              stdout := stdout w @ [failure (''Input node not found: '' @ py_str p x)]\<rparr>) \<and>
         (\<exists>ms. length ms = length pre \<and> calls w3 = calls w2 @ wiring node 0 pre ms)"
proof -
  from create_node_inputs_completed[OF assms(7)] obtain ms where
    ms: "length ms = length pre" "calls w3 = calls w2 @ wiring node 0 pre ms" "stdout w3 = stdout w2"
    by auto
  have out: "stdout w2 = stdout w" using assms(6) by simp
  note loop = create_node_inputs_missing[OF assms(7,8), of post]
  have "create_node p (PDict kvs) nk w =
           (Inr (), w3\<lparr>host := s4,
              calls := calls w3 @ [(C_toNode x, Inr (R_found None))],
              stdout := stdout w @ [failure (''Input node not found: '' @ py_str p x)]\<rparr>)"
  proof (cases "py_truthy name")
    case True
    with assms(1-6) loop ms(3) out show ?thesis
      by (simp add: create_node_run create_node_try_def run_simps)
         (simp add: pbind_def pret_def)
  next
    case False
    with assms(1-6) loop ms(3) out show ?thesis
      by (simp add: create_node_run create_node_try_def run_simps)
         (simp add: pbind_def pret_def)
  qed
  with ms show ?thesis by blast
qed

text \<open>
  C4 for a \<^verbatim>\<open>Blur\<close> node named \<^verbatim>\<open>B\<close> with the inputs \<^verbatim>\<open>Read1\<close>, \<^verbatim>\<open>Nope\<close> and
  \<^verbatim>\<open>Write1\<close>, the second of which does not exist: \<^verbatim>\<open>Read1\<close> is wired to slot 0,
  \<^verbatim>\<open>Write1\<close> is never looked up, and the node \<^verbatim>\<open>Blur1\<close> stays in the session.
\<close>

theorem create_node_missing_input_witness:
  "map_of [(''nodeType'', PStr ''Blur''), (''name'', PStr ''B''),
           (''inputs'', PList ([PStr ''Read1''] @ PStr ''Nope'' # [PStr ''Write1'']))] ''nodeType'' =
     Some (PStr ''Blur'') \<and>
   nuke_createNode demo_nuke (PStr ''Blur'') (host world0) =
     (Inr ''Blur1'', session0\<lparr>nodes := nodes session0 @ [(''Blur1'', ''Blur'')]\<rparr>) \<and>
   py_truthy (PStr ''B'') \<and>
   Node_getitem demo_nuke ''Blur1'' (PStr ''name'')
     (session0\<lparr>nodes := nodes session0 @ [(''Blur1'', ''Blur'')]\<rparr>) =
     (Inr (''Blur1'', ''name''), session0\<lparr>nodes := nodes session0 @ [(''Blur1'', ''Blur'')]\<rparr>) \<and>
   Knob_setValue demo_nuke (''Blur1'', ''name'') (PStr ''B'')
     (session0\<lparr>nodes := nodes session0 @ [(''Blur1'', ''Blur'')]\<rparr>) =
     (Inr (), session0\<lparr>nodes := nodes session0 @ [(''Blur1'', ''Blur'')],
                         knob_values := ((''Blur1'', ''name''), PStr ''B'') # knob_values session0\<rparr>) \<and>
   create_node_inputs demo_py demo_nuke ''Blur1'' 0 [PStr ''Read1'']
     (world0\<lparr>host := session0\<lparr>nodes := nodes session0 @ [(''Blur1'', ''Blur'')],
                                 knob_values := ((''Blur1'', ''name''), PStr ''B'') # knob_values session0\<rparr>,
             calls := calls world0 @
               [(C_createNode (PStr ''Blur''), Inr (R_node ''Blur1'')),
                (C_getitem ''Blur1'' (PStr ''name''), Inr (R_knob (''Blur1'', ''name''))),
                (C_setValue (''Blur1'', ''name'') (PStr ''B''), Inr R_unit)]\<rparr>) =
     (Inr True,
      world0\<lparr>host := session0\<lparr>nodes := nodes session0 @ [(''Blur1'', ''Blur'')],
                                 knob_values := ((''Blur1'', ''name''), PStr ''B'') # knob_values session0,
                                 wired := [(''Blur1'', 0, ''Read1'')]\<rparr>,
             calls := calls world0 @
               [(C_createNode (PStr ''Blur''), Inr (R_node ''Blur1'')),
                (C_getitem ''Blur1'' (PStr ''name''), Inr (R_knob (''Blur1'', ''name''))),
                (C_setValue (''Blur1'', ''name'') (PStr ''B''), Inr R_unit),
                (C_toNode (PStr ''Read1''), Inr (R_found (Some ''Read1''))),
                (C_setInput ''Blur1'' 0 ''Read1'', Inr R_unit)]\<rparr>) \<and>
   nuke_toNode demo_nuke (PStr ''Nope'')
     (session0\<lparr>nodes := nodes session0 @ [(''Blur1'', ''Blur'')],
               knob_values := ((''Blur1'', ''name''), PStr ''B'') # knob_values session0,
               wired := [(''Blur1'', 0, ''Read1'')]\<rparr>) =
     (Inr None,
      session0\<lparr>nodes := nodes session0 @ [(''Blur1'', ''Blur'')],
               knob_values := ((''Blur1'', ''name''), PStr ''B'') # knob_values session0,
               wired := [(''Blur1'', 0, ''Read1'')]\<rparr>) \<and>
   create_node demo_py
     (PDict [(''nodeType'', PStr ''Blur''), (''name'', PStr ''B''),
             (''inputs'', PList ([PStr ''Read1''] @ PStr ''Nope'' # [PStr ''Write1'']))])
     demo_nuke world0 =
     (Inr (),
      world0\<lparr>host := session0\<lparr>nodes := nodes session0 @ [(''Blur1'', ''Blur'')],
                                 knob_values := ((''Blur1'', ''name''), PStr ''B'') # knob_values session0,
                                 wired := [(''Blur1'', 0, ''Read1'')]\<rparr>,
             calls := calls world0 @
               [(C_createNode (PStr ''Blur''), Inr (R_node ''Blur1'')),
                (C_getitem ''Blur1'' (PStr ''name''), Inr (R_knob (''Blur1'', ''name''))),
                (C_setValue (''Blur1'', ''name'') (PStr ''B''), Inr R_unit),
                (C_toNode (PStr ''Read1''), Inr (R_found (Some ''Read1''))),
                (C_setInput ''Blur1'' 0 ''Read1'', Inr R_unit),
                (C_toNode (PStr ''Nope''), Inr (R_found None))],
             stdout := stdout world0 @ [failure ''Input node not found: Nope'']\<rparr>)"
  (is "?A \<and> ?B \<and> ?C \<and> ?D \<and> ?E \<and> ?F \<and> ?G \<and> ?H")
proof -
  have a: ?A by simp
  have i: "map_of [(''nodeType'', PStr ''Blur''), (''name'', PStr ''B''),
           (''inputs'', PList ([PStr ''Read1''] @ PStr ''Nope'' # [PStr ''Write1'']))] ''inputs'' =
     Some (PList ([PStr ''Read1''] @ PStr ''Nope'' # [PStr ''Write1'']))"
    by simp
  have n: "PStr ''B'' = (case map_of [(''nodeType'', PStr ''Blur''), (''name'', PStr ''B''),
           (''inputs'', PList ([PStr ''Read1''] @ PStr ''Nope'' # [PStr ''Write1'']))] ''name'' of
             None \<Rightarrow> PNone | Some v \<Rightarrow> v)"
    by simp
  have b: ?B by (simp add: demo_simps)
  have c: ?C by simp
  have d: ?D by (simp add: demo_simps)
  have e: ?E by (simp add: demo_simps)
  have r: "if py_truthy (PStr ''B'')
         then Node_getitem demo_nuke ''Blur1'' (PStr ''name'')
                (session0\<lparr>nodes := nodes session0 @ [(''Blur1'', ''Blur'')]\<rparr>) =
                (Inr (''Blur1'', ''name''), session0\<lparr>nodes := nodes session0 @ [(''Blur1'', ''Blur'')]\<rparr>) \<and>
              Knob_setValue demo_nuke (''Blur1'', ''name'') (PStr ''B'')
                (session0\<lparr>nodes := nodes session0 @ [(''Blur1'', ''Blur'')]\<rparr>) =
                (Inr (), session0\<lparr>nodes := nodes session0 @ [(''Blur1'', ''Blur'')],
                         knob_values := ((''Blur1'', ''name''), PStr ''B'') # knob_values session0\<rparr>)
         else session0\<lparr>nodes := nodes session0 @ [(''Blur1'', ''Blur'')],
                         knob_values := ((''Blur1'', ''name''), PStr ''B'') # knob_values session0\<rparr> =
              session0\<lparr>nodes := nodes session0 @ [(''Blur1'', ''Blur'')]\<rparr>"
    using d e by simp
  have w2: "world0\<lparr>host := session0\<lparr>nodes := nodes session0 @ [(''Blur1'', ''Blur'')],
                                 knob_values := ((''Blur1'', ''name''), PStr ''B'') # knob_values session0\<rparr>,
             calls := calls world0 @
               [(C_createNode (PStr ''Blur''), Inr (R_node ''Blur1'')),
                (C_getitem ''Blur1'' (PStr ''name''), Inr (R_knob (''Blur1'', ''name''))),
                (C_setValue (''Blur1'', ''name'') (PStr ''B''), Inr R_unit)]\<rparr> =
            world0\<lparr>host := session0\<lparr>nodes := nodes session0 @ [(''Blur1'', ''Blur'')],
                         knob_values := ((''Blur1'', ''name''), PStr ''B'') # knob_values session0\<rparr>,
                 calls := calls world0 @ (C_createNode (PStr ''Blur''), Inr (R_node ''Blur1'')) #
                   (if py_truthy (PStr ''B'')
                    then [(C_getitem ''Blur1'' (PStr ''name''), Inr (R_knob (''Blur1'', ''name''))),
                          (C_setValue (''Blur1'', ''name'') (PStr ''B''), Inr R_unit)]
                    else [])\<rparr>"
    by simp
  have f: ?F by (simp add: create_node_inputs_Cons demo_simps pret_def)
  have g: ?G by (simp add: demo_simps)
  have g': "nuke_toNode demo_nuke (PStr ''Nope'')
     (host (world0\<lparr>host := session0\<lparr>nodes := nodes session0 @ [(''Blur1'', ''Blur'')],
                                 knob_values := ((''Blur1'', ''name''), PStr ''B'') # knob_values session0,
                                 wired := [(''Blur1'', 0, ''Read1'')]\<rparr>,
             calls := calls world0 @
               [(C_createNode (PStr ''Blur''), Inr (R_node ''Blur1'')),
                (C_getitem ''Blur1'' (PStr ''name''), Inr (R_knob (''Blur1'', ''name''))),
                (C_setValue (''Blur1'', ''name'') (PStr ''B''), Inr R_unit),
                (C_toNode (PStr ''Read1''), Inr (R_found (Some ''Read1''))),
                (C_setInput ''Blur1'' 0 ''Read1'', Inr R_unit)]\<rparr>)) =
     (Inr None,
      session0\<lparr>nodes := nodes session0 @ [(''Blur1'', ''Blur'')],
               knob_values := ((''Blur1'', ''name''), PStr ''B'') # knob_values session0,
               wired := [(''Blur1'', 0, ''Read1'')]\<rparr>)"
    using g by simp
  from create_node_missing_input[OF a i n b r w2 f g'] have h: ?H
    by (simp add: py_str_def)
  from a b c d e f g h show ?thesis by blast
qed

subsection \<open>Claim C5\<close>

text \<open>
  Claim C5. \<^verbatim>\<open>execute\<close> on a node that exists: when its class is not \<^verbatim>\<open>Write\<close> the
  handler prints the failure envelope saying so, and its only host calls are the lookup
  and the class query, so the render is not invoked. When its class is \<^verbatim>\<open>Write\<close> and
  both frame bounds coerce to integers, the next host call is the render of the node
  over these two integers, applied to the session the class query left; with \<open>res\<close>
  its answer and \<open>s3\<close> the session it leaves: when the render raises, the run ends
  there in the session \<open>s3\<close>, with the failure envelope of the exception if it is an
  \<^verbatim>\<open>Exception\<close> and with the exception itself otherwise; when it returns, the call
  after it is the fetch of the \<^verbatim>\<open>file\<close> knob in the session \<open>s3\<close>.
\<close>

theorem execute_not_Write:
  assumes "map_of kvs ''writeNodeName'' = Some nm"
    and "map_of kvs ''frameRangeStart'' = Some fs"
    and "map_of kvs ''frameRangeEnd'' = Some fe"
    and "nuke_toNode nk nm (host w) = (Inr (Some n), s1)"
    and "Node_Class nk n s1 = (Inr c, s2)"
  shows "(c \<noteq> PStr ''Write'' \<longrightarrow>
           execute p (PDict kvs) nk w =
             (Inr (), w\<lparr>host := s2,
                calls := calls w @ [(C_toNode nm, Inr (R_found (Some n))), (C_Class n, Inr (R_val c))],
                stdout := stdout w @ [failure (''Node '' @ py_str p nm @ '' is not a Write node'')]\<rparr>)) \<and>
         (c = PStr ''Write'' \<longrightarrow> py_int p fs = Inr a \<longrightarrow> py_int p fe = Inr b \<longrightarrow>
          nuke_execute nk n a b s2 = (res, s3) \<longrightarrow>
            (case res of
               Inl e \<Rightarrow>
                 execute p (PDict kvs) nk w =
                   (if isinstance_Exception e
                    then (Inr (), w\<lparr>host := s3,
                            calls := calls w @ [(C_toNode nm, Inr (R_found (Some n))),
                                                (C_Class n, Inr (R_val c)),
                                                (C_execute n a b, Inl e)],
                            stdout := stdout w @
                              [failure (''Error executing write node: '' @ exn_str e)]\<rparr>)
                    else (Inl e, w\<lparr>host := s3,
                            calls := calls w @ [(C_toNode nm, Inr (R_found (Some n))),
                                                (C_Class n, Inr (R_val c)),
                                                (C_execute n a b, Inl e)]\<rparr>))
             | Inr u \<Rightarrow>
                 (\<exists>r w' rest. execute p (PDict kvs) nk w = (r, w') \<and>
                    calls w' = calls w @ [(C_toNode nm, Inr (R_found (Some n))),
                                          (C_Class n, Inr (R_val c)),
                                          (C_execute n a b, Inr R_unit),
                                          (C_getitem n (PStr ''file''),
                                           map_sum id R_knob (fst (Node_getitem nk n (PStr ''file'') s3)))]
                                         @ rest)))"
  using assms
  apply (cases res)
  apply (simp_all add: execute_def execute_try_def pbind_lift_Inr map_of_in_keys toNode_def Class_of_def render_def getitem_def kvalue_def
      pbind_host_call try_except_def respond_failure)
  apply (auto simp: host_call_def respond_def json_dumps_def builtin_error_def pbind_def lift_def print_def
           split: prod.splits sum.splits if_splits option.splits)
  done

text \<open>
  C5 on the \<^verbatim>\<open>Read\<close> node and on the \<^verbatim>\<open>Write\<close> node of the small host, the latter
  with the bounds \<^verbatim>\<open>"1"\<close> and \<^verbatim>\<open>10.0\<close>, and on the \<^verbatim>\<open>Write\<close> node of the host whose
  render is interrupted.
\<close>

theorem execute_not_Write_witness:
  "nuke_toNode demo_nuke (PStr ''Read1'') (host world0) = (Inr (Some ''Read1''), session0) \<and>
   Node_Class demo_nuke ''Read1'' session0 = (Inr (PStr ''Read''), session0) \<and>
   PStr ''Read'' \<noteq> PStr ''Write'' \<and>
   execute demo_py
     (PDict [(''writeNodeName'', PStr ''Read1''), (''frameRangeStart'', PInt 1), (''frameRangeEnd'', PInt 10)])
     demo_nuke world0 =
     (Inr (), world0\<lparr>host := session0,
        calls := calls world0 @ [(C_toNode (PStr ''Read1''), Inr (R_found (Some ''Read1''))),
                                 (C_Class ''Read1'', Inr (R_val (PStr ''Read'')))],
        stdout := stdout world0 @ [failure ''Node Read1 is not a Write node'']\<rparr>) \<and>
   nuke_toNode demo_nuke (PStr ''Write1'') (host world0) = (Inr (Some ''Write1''), session0) \<and>
   Node_Class demo_nuke ''Write1'' session0 = (Inr (PStr ''Write''), session0) \<and>
   py_int demo_py (PStr ''1'') = Inr 1 \<and>
   py_int demo_py (PFloat 0x4024000000000000) = Inr 10 \<and>
   nuke_execute demo_nuke ''Write1'' 1 10 session0 =
     (Inr (), session0\<lparr>rendered := rendered session0 @ [(''Write1'', 1, 10)]\<rparr>) \<and>
   (\<exists>r w' rest.
      execute demo_py
        (PDict [(''writeNodeName'', PStr ''Write1''), (''frameRangeStart'', PStr ''1''),
                (''frameRangeEnd'', PFloat 0x4024000000000000)]) demo_nuke world0 = (r, w') \<and>
      calls w' = calls world0 @ [(C_toNode (PStr ''Write1''), Inr (R_found (Some ''Write1''))),
                                 (C_Class ''Write1'', Inr (R_val (PStr ''Write''))),
                                 (C_execute ''Write1'' 1 10, Inr R_unit),
                                 (C_getitem ''Write1'' (PStr ''file''), Inr (R_knob (''Write1'', ''file'')))]
                                @ rest) \<and>
   nuke_toNode interrupted_nuke (PStr ''Write1'') (host world0) = (Inr (Some ''Write1''), session0) \<and>
   Node_Class interrupted_nuke ''Write1'' session0 = (Inr (PStr ''Write''), session0) \<and>
   nuke_execute interrupted_nuke ''Write1'' 1 10 session0 = (Inl (Exn KeyboardInterrupt []), session0) \<and>
   execute demo_py
     (PDict [(''writeNodeName'', PStr ''Write1''), (''frameRangeStart'', PStr ''1''),
             (''frameRangeEnd'', PFloat 0x4024000000000000)]) interrupted_nuke world0 =
     (Inl (Exn KeyboardInterrupt []),
      world0\<lparr>host := session0,
        calls := calls world0 @ [(C_toNode (PStr ''Write1''), Inr (R_found (Some ''Write1''))),
                                 (C_Class ''Write1'', Inr (R_val (PStr ''Write''))),
                                 (C_execute ''Write1'' 1 10, Inl (Exn KeyboardInterrupt []))]\<rparr>)"
  (is "?A4 \<and> ?A5 \<and> ?A6 \<and> ?RA \<and> ?B4 \<and> ?B5 \<and> ?B6 \<and> ?B7 \<and> ?B8 \<and> ?RB \<and> ?C4 \<and> ?C5 \<and> ?C8 \<and> ?RC")
proof -
  have a1: "map_of [(''writeNodeName'', PStr ''Read1''), (''frameRangeStart'', PInt 1), (''frameRangeEnd'', PInt 10)]
     ''writeNodeName'' = Some (PStr ''Read1'')" by simp
  have a2: "map_of [(''writeNodeName'', PStr ''Read1''), (''frameRangeStart'', PInt 1), (''frameRangeEnd'', PInt 10)]
     ''frameRangeStart'' = Some (PInt 1)" by simp
  have a3: "map_of [(''writeNodeName'', PStr ''Read1''), (''frameRangeStart'', PInt 1), (''frameRangeEnd'', PInt 10)]
     ''frameRangeEnd'' = Some (PInt 10)" by simp
  have a4: ?A4 by (simp add: demo_simps)
  have a5: ?A5 by (simp add: demo_simps)
  have a6: ?A6 by simp
  have b1: "map_of [(''writeNodeName'', PStr ''Write1''), (''frameRangeStart'', PStr ''1''),
           (''frameRangeEnd'', PFloat 0x4024000000000000)] ''writeNodeName'' = Some (PStr ''Write1'')" by simp
  have b2: "map_of [(''writeNodeName'', PStr ''Write1''), (''frameRangeStart'', PStr ''1''),
           (''frameRangeEnd'', PFloat 0x4024000000000000)] ''frameRangeStart'' = Some (PStr ''1'')" by simp
  have b3: "map_of [(''writeNodeName'', PStr ''Write1''), (''frameRangeStart'', PStr ''1''),
           (''frameRangeEnd'', PFloat 0x4024000000000000)] ''frameRangeEnd'' = Some (PFloat 0x4024000000000000)"
    by simp
  have b4: ?B4 by (simp add: demo_simps)
  have b5: ?B5 by (simp add: demo_simps)
  have b6: ?B6 by (simp add: demo_py_def)
  have b7: ?B7 by (simp add: float_to_int_def Let_def)
  have b8: ?B8 by (simp add: demo_nuke_def)
  have b9: "fst (Node_getitem demo_nuke ''Write1'' (PStr ''file'')
                  (session0\<lparr>rendered := rendered session0 @ [(''Write1'', 1, 10)]\<rparr>)) =
            Inr (''Write1'', ''file'')"
    by (simp add: demo_nuke_def demo_knobs_def)
  have c4: ?C4 by (simp add: demo_simps)
  have c5: ?C5 by (simp add: demo_simps)
  have c8: ?C8 by (simp add: interrupted_nuke_def)
  have c9: "\<not> isinstance_Exception (Exn KeyboardInterrupt [])"
    by (simp add: isinstance_Exception_def)
  have ra: ?RA
    using execute_not_Write[OF a1 a2 a3 a4 a5, of demo_py] by (simp add: py_str_def)
  have rb: ?RB
    using execute_not_Write[OF b1 b2 b3 b4 b5, of demo_py 1 10 "Inr ()"
            "session0\<lparr>rendered := rendered session0 @ [(''Write1'', 1, 10)]\<rparr>"] b6 b7 b8 b9
    by simp
  have rc: ?RC
    using execute_not_Write[OF b1 b2 b3 c4 c5, of demo_py 1 10 "Inl (Exn KeyboardInterrupt [])" session0]
      b6 b7 c8 c9
    by simp
  from a4 a5 a6 ra b4 b5 b6 b7 b8 rb c4 c5 c8 rc show ?thesis by blast
qed

subsection \<open>Claim C6\<close>

text \<open>
  Claim C6. \<^verbatim>\<open>setKnobValue\<close> with its three arguments present: when no node of that
  name is found, the handler prints the failure envelope naming the node after the
  lookup alone; when the node is found and the knob name is not among its knobs (or
  cannot be looked up among them), it prints a failure envelope after the lookup and
  the knobs query alone; in both cases no value is set. Otherwise, the knob being
  fetched and set without an exception, the value given is the one set; then, when
  \<^verbatim>\<open>json.dumps\<close> encodes the payload, the response is the success envelope echoing
  node, knob and value, and when \<^verbatim>\<open>json.dumps\<close> raises on it, the response is the
  failure envelope of that exception, the knob staying set.
\<close>

theorem set_knob_value_cases:
  assumes "map_of kvs ''nodeName'' = Some nm"
    and "map_of kvs ''knobName'' = Some kn"
    and "map_of kvs ''value'' = Some v"
  shows "(nuke_toNode nk nm (host w) = (Inr None, s1) \<longrightarrow>
           set_knob_value p (PDict kvs) nk w =
             (Inr (), w\<lparr>host := s1,
                calls := calls w @ [(C_toNode nm, Inr (R_found None))],
                stdout := stdout w @ [failure (''Node not found: '' @ py_str p nm)]\<rparr>)) \<and>
         (nuke_toNode nk nm (host w) = (Inr (Some n), s1) \<longrightarrow>
          Node_knobs nk n s1 = (Inr names, s2) \<longrightarrow>
            (py_in_keys p kn names = Inr False \<longrightarrow>
               set_knob_value p (PDict kvs) nk w =
                 (Inr (), w\<lparr>host := s2,
                    calls := calls w @ [(C_toNode nm, Inr (R_found (Some n))),
                                        (C_knobs n, Inr (R_keys names))],
                    stdout := stdout w @ [failure (''Knob not found: '' @ py_str p kn)]\<rparr>)) \<and>
            (py_in_keys p kn names = Inl e \<longrightarrow>
               set_knob_value p (PDict kvs) nk w =
                 (Inr (), w\<lparr>host := s2,
                    calls := calls w @ [(C_toNode nm, Inr (R_found (Some n))),
                                        (C_knobs n, Inr (R_keys names))],
                    stdout := stdout w @ [failure (''Error setting knob value: '' @ exn_str e)]\<rparr>)) \<and>
            (py_in_keys p kn names = Inr True \<longrightarrow>
             Node_getitem nk n kn s2 = (Inr k, s3) \<longrightarrow>
             Knob_setValue nk k v s3 = (Inr (), s4) \<longrightarrow>
               (accepted p (success (PDict [(''node'', nm), (''knob'', kn), (''value'', v)])) \<longrightarrow>
                  set_knob_value p (PDict kvs) nk w =
                    (Inr (), w\<lparr>host := s4,
                       calls := calls w @ [(C_toNode nm, Inr (R_found (Some n))),
                                           (C_knobs n, Inr (R_keys names)),
                                           (C_getitem n kn, Inr (R_knob k)),
                                           (C_setValue k v, Inr R_unit)],
                       stdout := stdout w @
                         [success (PDict [(''node'', nm), (''knob'', kn), (''value'', v)])]\<rparr>)) \<and>
               (json_dumps p (success (PDict [(''node'', nm), (''knob'', kn), (''value'', v)])) = Inl e \<longrightarrow>
                  set_knob_value p (PDict kvs) nk w =
                    (Inr (), w\<lparr>host := s4,
                       calls := calls w @ [(C_toNode nm, Inr (R_found (Some n))),
                                           (C_knobs n, Inr (R_keys names)),
                                           (C_getitem n kn, Inr (R_knob k)),
                                           (C_setValue k v, Inr R_unit)],
                       stdout := stdout w @
                         [failure (''Error setting knob value: '' @ exn_str e)]\<rparr>))))"
  using assms py_in_keys_raises[of p kn names e]
    json_dumps_raises[of p "success (PDict [(''node'', nm), (''knob'', kn), (''value'', v)])" e]
  by (auto simp add: set_knob_value_def set_knob_value_try_def run_simps respond_raises)

text \<open>
  C6 on the small host: an absent node, an absent knob, an unhashable knob name, the
  \<^verbatim>\<open>file\<close> knob of \<^verbatim>\<open>Read1\<close> set to a path, and the same knob set to a value inside
  992 lists.
\<close>

theorem set_knob_value_cases_witness:
  "nuke_toNode demo_nuke (PStr ''Nope'') (host world0) = (Inr None, session0) \<and>
   set_knob_value demo_py
     (PDict [(''nodeName'', PStr ''Nope''), (''knobName'', PStr ''file''), (''value'', PStr ''/a.exr'')])
     demo_nuke world0 =
     (Inr (), world0\<lparr>host := session0,
        calls := calls world0 @ [(C_toNode (PStr ''Nope''), Inr (R_found None))],
        stdout := stdout world0 @ [failure ''Node not found: Nope'']\<rparr>) \<and>
   nuke_toNode demo_nuke (PStr ''Read1'') (host world0) = (Inr (Some ''Read1''), session0) \<and>
   Node_knobs demo_nuke ''Read1'' session0 = (Inr demo_knobs, session0) \<and>
   py_in_keys demo_py (PStr ''gain'') demo_knobs = Inr False \<and>
   set_knob_value demo_py
     (PDict [(''nodeName'', PStr ''Read1''), (''knobName'', PStr ''gain''), (''value'', PInt 2)])
     demo_nuke world0 =
     (Inr (), world0\<lparr>host := session0,
        calls := calls world0 @ [(C_toNode (PStr ''Read1''), Inr (R_found (Some ''Read1''))),
                                 (C_knobs ''Read1'', Inr (R_keys demo_knobs))],
        stdout := stdout world0 @ [failure ''Knob not found: gain'']\<rparr>) \<and>
   py_in_keys demo_py (PList []) demo_knobs = Inl (Exn TypeError ''hash'') \<and>
   set_knob_value demo_py
     (PDict [(''nodeName'', PStr ''Read1''), (''knobName'', PList []), (''value'', PInt 2)])
     demo_nuke world0 =
     (Inr (), world0\<lparr>host := session0,
        calls := calls world0 @ [(C_toNode (PStr ''Read1''), Inr (R_found (Some ''Read1''))),
                                 (C_knobs ''Read1'', Inr (R_keys demo_knobs))],
        stdout := stdout world0 @ [failure ''Error setting knob value: hash'']\<rparr>) \<and>
   py_in_keys demo_py (PStr ''file'') demo_knobs = Inr True \<and>
   Node_getitem demo_nuke ''Read1'' (PStr ''file'') session0 = (Inr (''Read1'', ''file''), session0) \<and>
   Knob_setValue demo_nuke (''Read1'', ''file'') (PStr ''/a.exr'') session0 =
     (Inr (), session0\<lparr>knob_values := ((''Read1'', ''file''), PStr ''/a.exr'') # knob_values session0\<rparr>) \<and>
   accepted demo_py
     (success (PDict [(''node'', PStr ''Read1''), (''knob'', PStr ''file''), (''value'', PStr ''/a.exr'')])) \<and>
   set_knob_value demo_py
     (PDict [(''nodeName'', PStr ''Read1''), (''knobName'', PStr ''file''), (''value'', PStr ''/a.exr'')])
     demo_nuke world0 =
     (Inr (), world0\<lparr>
        host := session0\<lparr>knob_values := ((''Read1'', ''file''), PStr ''/a.exr'') # knob_values session0\<rparr>,
        calls := calls world0 @ [(C_toNode (PStr ''Read1''), Inr (R_found (Some ''Read1''))),
                                 (C_knobs ''Read1'', Inr (R_keys demo_knobs)),
                                 (C_getitem ''Read1'' (PStr ''file''), Inr (R_knob (''Read1'', ''file''))),
                                 (C_setValue (''Read1'', ''file'') (PStr ''/a.exr''), Inr R_unit)],
        stdout := stdout world0 @
          [success (PDict [(''node'', PStr ''Read1''), (''knob'', PStr ''file''),
                           (''value'', PStr ''/a.exr'')])]\<rparr>) \<and>
   Knob_setValue demo_nuke (''Read1'', ''file'') (nest 992 (PInt 0)) session0 =
     (Inr (), session0\<lparr>knob_values := ((''Read1'', ''file''), nest 992 (PInt 0)) # knob_values session0\<rparr>) \<and>
   json_dumps demo_py
     (success (PDict [(''node'', PStr ''Read1''), (''knob'', PStr ''file''),
                      (''value'', nest 992 (PInt 0))])) = Inl (Exn RecursionError ''dumps'') \<and>
   set_knob_value demo_py
     (PDict [(''nodeName'', PStr ''Read1''), (''knobName'', PStr ''file''), (''value'', nest 992 (PInt 0))])
     demo_nuke world0 =
     (Inr (), world0\<lparr>
        host := session0\<lparr>knob_values := ((''Read1'', ''file''), nest 992 (PInt 0)) # knob_values session0\<rparr>,
        calls := calls world0 @ [(C_toNode (PStr ''Read1''), Inr (R_found (Some ''Read1''))),
                                 (C_knobs ''Read1'', Inr (R_keys demo_knobs)),
                                 (C_getitem ''Read1'' (PStr ''file''), Inr (R_knob (''Read1'', ''file''))),
                                 (C_setValue (''Read1'', ''file'') (nest 992 (PInt 0)), Inr R_unit)],
        stdout := stdout world0 @ [failure ''Error setting knob value: dumps'']\<rparr>)"
  (is "?N \<and> ?R1 \<and> ?R \<and> ?K \<and> ?M1 \<and> ?R2 \<and> ?M2 \<and> ?R3 \<and> ?M3 \<and> ?G \<and> ?V \<and> ?A \<and> ?R4 \<and> ?W \<and> ?J \<and> ?R5")
proof -
  have n: ?N by (simp add: demo_simps)
  have r: ?R by (simp add: demo_simps)
  have k: ?K by (simp add: demo_nuke_def)
  have m1: ?M1 by (simp add: demo_knobs_def)
  have m2: ?M2 by (simp add: builtin_error_def demo_py_def)
  have m3: ?M3 by (simp add: demo_knobs_def)
  have g: ?G by (simp add: demo_nuke_def demo_knobs_def)
  have v: ?V by (simp add: demo_nuke_def)
  have a: ?A by (simp add: accepted_def success_def demo_py_def)
  have w: ?W by (simp add: demo_nuke_def)
  have j: ?J
    by (simp add: json_dumps_def builtin_error_def demo_py_def success_def dumps_error_nest)
  have r1: ?R1
    using set_knob_value_cases[of "[(''nodeName'', PStr ''Nope''), (''knobName'', PStr ''file''), (''value'', PStr ''/a.exr'')]"
         "PStr ''Nope''" "PStr ''file''" "PStr ''/a.exr''" demo_nuke world0 session0 demo_py] n
    by (simp add: py_str_def)
  have r2: ?R2
    using set_knob_value_cases[of "[(''nodeName'', PStr ''Read1''), (''knobName'', PStr ''gain''), (''value'', PInt 2)]"
         "PStr ''Read1''" "PStr ''gain''" "PInt 2" demo_nuke world0 session0 demo_py "''Read1''" demo_knobs session0]
       r k m1
    by (simp add: py_str_def)
  have r3: ?R3
    using set_knob_value_cases[of "[(''nodeName'', PStr ''Read1''), (''knobName'', PList []), (''value'', PInt 2)]"
         "PStr ''Read1''" "PList []" "PInt 2" demo_nuke world0 session0 demo_py "''Read1''" demo_knobs session0
         "Exn TypeError ''hash''"]
       r k m2
    by simp
  have r4: ?R4
    using set_knob_value_cases[of "[(''nodeName'', PStr ''Read1''), (''knobName'', PStr ''file''), (''value'', PStr ''/a.exr'')]"
         "PStr ''Read1''" "PStr ''file''" "PStr ''/a.exr''" demo_nuke world0 session0 demo_py "''Read1''" demo_knobs session0
         _ "(''Read1'', ''file'')" session0
         "session0\<lparr>knob_values := ((''Read1'', ''file''), PStr ''/a.exr'') # knob_values session0\<rparr>"]
       r k m3 g v a
    by simp
  have r5: ?R5
    using set_knob_value_cases[of "[(''nodeName'', PStr ''Read1''), (''knobName'', PStr ''file''), (''value'', nest 992 (PInt 0))]"
         "PStr ''Read1''" "PStr ''file''" "nest 992 (PInt 0)" demo_nuke world0 session0 demo_py "''Read1''" demo_knobs session0
         "Exn RecursionError ''dumps''" "(''Read1'', ''file'')" session0
         "session0\<lparr>knob_values := ((''Read1'', ''file''), nest 992 (PInt 0)) # knob_values session0\<rparr>"]
       r k m3 g w j
    by simp
  from n r1 r k m1 r2 m2 r3 m3 g v a r4 w j r5 show ?thesis by blast
qed

text \<open>
  Claim C6 as stated fails for a value nested too deeply for \<^verbatim>\<open>json.dumps\<close>: with a
  value inside 992 lists on the small host, where \<^verbatim>\<open>json.dumps\<close> has 991 levels left
  below the envelope, the node and the knob exist and the knob is set to the value,
  and the response is not the success envelope but the failure envelope of the
  exception raised on serialising the payload.
\<close>

theorem set_knob_value_deep_value:
  "set_knob_value demo_py
     (PDict [(''nodeName'', PStr ''Read1''), (''knobName'', PStr ''file''), (''value'', nest 992 (PInt 0))])
     demo_nuke world0 =
     (Inr (), world0\<lparr>
        host := session0\<lparr>knob_values := ((''Read1'', ''file''), nest 992 (PInt 0)) # knob_values session0\<rparr>,
        calls := calls world0 @ [(C_toNode (PStr ''Read1''), Inr (R_found (Some ''Read1''))),
                                 (C_knobs ''Read1'', Inr (R_keys demo_knobs)),
                                 (C_getitem ''Read1'' (PStr ''file''), Inr (R_knob (''Read1'', ''file''))),
                                 (C_setValue (''Read1'', ''file'') (nest 992 (PInt 0)), Inr R_unit)],
        stdout := stdout world0 @ [failure ''Error setting knob value: dumps'']\<rparr>)"
proof -
  have j: "json_dumps demo_py
     (success (PDict [(''node'', PStr ''Read1''), (''knob'', PStr ''file''),
                      (''value'', nest 992 (PInt 0))])) = Inl (Exn RecursionError ''dumps'')"
    by (simp add: json_dumps_def builtin_error_def demo_py_def success_def dumps_error_nest)
  have c: "isinstance_Exception (Exn RecursionError ''dumps'')"
    by (simp add: isinstance_Exception_def)
  show ?thesis
    by (simp add: set_knob_value_def set_knob_value_try_def run_simps respond_raises[OF j] c
          demo_nuke_def demo_knobs_def session0_def world0_def)
qed

subsection \<open>Claim C7\<close>

text \<open>
  Claim C7. \<^verbatim>\<open>getNode\<close> on a node that exists and answers the queries for its name,
  class, position and knobs: the loop over the knobs always runs to its end, whatever
  is raised while a knob is read. Every entry of the knobs map it builds is a knob of
  the node, read in that loop through a handle whose class was reported as one of the
  seven scalar classes and whose value is the entry's. When \<^verbatim>\<open>json.dumps\<close> encodes
  the payload, the response is the success envelope with name, type, position and this
  knobs map.
\<close>

theorem get_node_snapshot:
  assumes "map_of kvs ''nodeName'' = Some nm"
    and "nuke_toNode nk nm (host w) = (Inr (Some node), s1)"
    and "Node_name nk node s1 = (Inr a, s2)"
    and "Node_Class nk node s2 = (Inr c, s3)"
    and "Node_xpos nk node s3 = (Inr x, s4)"
    and "Node_ypos nk node s4 = (Inr y, s5)"
    and "Node_knobs nk node s5 = (Inr names, s6)"
    and "w6 = w\<lparr>host := s6,
                 calls := calls w @
                   [(C_toNode nm, Inr (R_found (Some node))), (C_name node, Inr (R_val a)),
                    (C_Class node, Inr (R_val c)), (C_xpos node, Inr (R_val x)),
                    (C_ypos node, Inr (R_val y)), (C_knobs node, Inr (R_keys names))]\<rparr>"
  shows "\<exists>kn evs w7.
           get_node_knobs nk node names [] w6 = (Inr kn, w7) \<and>
           calls w7 = calls w6 @ evs \<and>
           (\<forall>(key, v) \<in> set kn. key \<in> set names \<and> scalar_read nk node evs key v) \<and>
           (accepted p (success (PDict [(''name'', a), (''type'', c),
                                        (''position'', PDict [(''x'', x), (''y'', y)]),
                                        (''knobs'', PDict kn)])) \<longrightarrow>
              get_node p (PDict kvs) nk w =
                (Inr (), w7\<lparr>stdout := stdout w @
                   [success (PDict [(''name'', a), (''type'', c),
                                    (''position'', PDict [(''x'', x), (''y'', y)]),
                                    (''knobs'', PDict kn)])]\<rparr>))"
proof -
  obtain r w7 where run: "get_node_knobs nk node names [] w6 = (r, w7)"
    by (cases "get_node_knobs nk node names [] w6")
  from get_node_knobs_run[OF run] obtain kn evs where
    k: "r = Inr kn" "calls w7 = calls w6 @ evs" "stdout w7 = stdout w6"
    and sound: "\<forall>(key, v) \<in> set kn.
        (key, v) \<in> set [] \<or> (key \<in> set names \<and> scalar_read nk node evs key v)"
    by blast
  have resp: "get_node p (PDict kvs) nk w =
                (Inr (), w7\<lparr>stdout := stdout w @
                   [success (PDict [(''name'', a), (''type'', c),
                                    (''position'', PDict [(''x'', x), (''y'', y)]),
                                    (''knobs'', PDict kn)])]\<rparr>)"
    if "accepted p (success (PDict [(''name'', a), (''type'', c),
                                    (''position'', PDict [(''x'', x), (''y'', y)]),
                                    (''knobs'', PDict kn)]))"
    using assms run k that
    by (simp add: get_node_def get_node_try_def node_info_def run_simps)
       (simp add: pbind_def respond_success)
  from run k sound resp show ?thesis
    by (intro exI[of _ kn] exI[of _ evs] exI[of _ w7]) auto
qed

text \<open>
  C7 on the \<^verbatim>\<open>Write1\<close> node of the small host: the \<^verbatim>\<open>channels\<close> knob, of another
  class, and the \<^verbatim>\<open>locked\<close> knob, whose read raises, are left out, and the response is a
  success.
\<close>

theorem get_node_snapshot_witness:
  "map_of [(''nodeName'', PStr ''Write1'')] ''nodeName'' = Some (PStr ''Write1'') \<and>
   nuke_toNode demo_nuke (PStr ''Write1'') (host world0) = (Inr (Some ''Write1''), session0) \<and>
   Node_name demo_nuke ''Write1'' session0 = (Inr (PStr ''Write1''), session0) \<and>
   Node_Class demo_nuke ''Write1'' session0 = (Inr (PStr ''Write''), session0) \<and>
   Node_xpos demo_nuke ''Write1'' session0 = (Inr (PInt 0), session0) \<and>
   Node_ypos demo_nuke ''Write1'' session0 = (Inr (PInt 0), session0) \<and>
   Node_knobs demo_nuke ''Write1'' session0 = (Inr demo_knobs, session0) \<and>
   (\<exists>kn evs w7.
      get_node_knobs demo_nuke ''Write1'' demo_knobs []
        (world0\<lparr>host := session0,
           calls := calls world0 @
             [(C_toNode (PStr ''Write1''), Inr (R_found (Some ''Write1''))),
              (C_name ''Write1'', Inr (R_val (PStr ''Write1''))),
              (C_Class ''Write1'', Inr (R_val (PStr ''Write''))),
              (C_xpos ''Write1'', Inr (R_val (PInt 0))),
              (C_ypos ''Write1'', Inr (R_val (PInt 0))),
              (C_knobs ''Write1'', Inr (R_keys demo_knobs))]\<rparr>) = (Inr kn, w7) \<and>
      calls w7 = calls
        (world0\<lparr>host := session0,
           calls := calls world0 @
             [(C_toNode (PStr ''Write1''), Inr (R_found (Some ''Write1''))),
              (C_name ''Write1'', Inr (R_val (PStr ''Write1''))),
              (C_Class ''Write1'', Inr (R_val (PStr ''Write''))),
              (C_xpos ''Write1'', Inr (R_val (PInt 0))),
              (C_ypos ''Write1'', Inr (R_val (PInt 0))),
              (C_knobs ''Write1'', Inr (R_keys demo_knobs))]\<rparr>) @ evs \<and>
      (\<forall>(key, v) \<in> set kn. key \<in> set demo_knobs \<and> scalar_read demo_nuke ''Write1'' evs key v) \<and>
      (accepted demo_py (success (PDict [(''name'', PStr ''Write1''), (''type'', PStr ''Write''),
                                         (''position'', PDict [(''x'', PInt 0), (''y'', PInt 0)]),
                                         (''knobs'', PDict kn)])) \<longrightarrow>
         get_node demo_py (PDict [(''nodeName'', PStr ''Write1'')]) demo_nuke world0 =
           (Inr (), w7\<lparr>stdout := stdout world0 @
              [success (PDict [(''name'', PStr ''Write1''), (''type'', PStr ''Write''),
                               (''position'', PDict [(''x'', PInt 0), (''y'', PInt 0)]),
                               (''knobs'', PDict kn)])]\<rparr>))) \<and>
   stdout (snd (get_node demo_py (PDict [(''nodeName'', PStr ''Write1'')]) demo_nuke world0)) =
     [success (PDict [(''name'', PStr ''Write1''), (''type'', PStr ''Write''),
                      (''position'', PDict [(''x'', PInt 0), (''y'', PInt 0)]),
                      (''knobs'', PDict [(''name'', PStr []), (''file'', PStr ''/out/shot.####.exr'')])])]"
  (is "?A \<and> ?B \<and> ?C \<and> ?D \<and> ?E \<and> ?F \<and> ?G \<and> ?H \<and> ?I")
proof -
  have a: ?A by simp
  have b: ?B by (simp add: demo_simps)
  have c: ?C by (simp add: demo_simps)
  have d: ?D by (simp add: demo_simps)
  have e: ?E by (simp add: demo_simps)
  have f: ?F by (simp add: demo_simps)
  have g: ?G by (simp add: demo_simps)
  have h: ?H by (rule get_node_snapshot[OF a b c d e f g refl])
  have i: ?I
    by (simp add: get_node_def get_node_try_def node_info_def get_node_knob_def
          string_knobs_def number_knobs_def bare_except_def demo_simps success_def
          pbind_def lift_def pret_def try_except_def host_call_def toNode_def name_of_def Class_of_def
          xpos_def ypos_def knobs_def getitem_def kClass_def kvalue_def
          respond_def envelope_def json_dumps_def print_def isinstance_Exception_def)
  from a b c d e f g h i show ?thesis by blast
qed

subsection \<open>Claim C8\<close>

text \<open>
  Claim C8. Whatever \<^verbatim>\<open>main\<close> prints is well formed: at most one envelope, a dict
  with a \<^verbatim>\<open>success\<close> and a \<^verbatim>\<open>data\<close> entry, \<^verbatim>\<open>data\<close> being None when \<^verbatim>\<open>success\<close>
  is false, and with an \<^verbatim>\<open>error\<close> entry if and only if \<^verbatim>\<open>success\<close> is false. This
  holds for every runtime, every outcome of \<^verbatim>\<open>import nuke\<close> and every host.
\<close>

theorem envelopes_well_formed:
  "\<exists>new. stdout (snd (main p import_nuke argv w)) = stdout w @ new \<and>
         length new \<le> 1 \<and> list_all well_formed new"
proof -
  have "once (\<lambda>e. True) (main p import_nuke argv)"
    by (intro once_main[where P = "\<lambda>e. True"]) (auto simp: host_raises_only_def raises_only_def)
  obtain r w' where run: "main p import_nuke argv w = (r, w')"
    by (cases "main p import_nuke argv w")
  from onceD[OF \<open>once (\<lambda>e. True) (main p import_nuke argv)\<close> run] run show ?thesis
    by (cases r) auto
qed

text \<open>
  C8 for \<^verbatim>\<open>getNode\<close> with the arguments \<^verbatim>\<open>{}\<close> on the small host.
\<close>

theorem envelopes_well_formed_witness:
  "\<exists>new. stdout (snd (main demo_py (Inr demo_nuke) [''nuke_bridge.py'', ''getNode'', ''{}''] world0)) =
           stdout world0 @ new \<and> length new \<le> 1 \<and> list_all well_formed new"
  using envelopes_well_formed[of demo_py "Inr demo_nuke" "[''nuke_bridge.py'', ''getNode'', ''{}'']" world0]
  by simp

subsection \<open>Claim C9\<close>

text \<open>
  Claim C9. \<^verbatim>\<open>execute\<close> on a \<^verbatim>\<open>Write\<close> node: when both bounds coerce, the render is
  called with the two integers, and (the render and the read of the \<^verbatim>\<open>file\<close> knob
  raising nothing, and \<^verbatim>\<open>json.dumps\<close> encoding the payload) the \<^verbatim>\<open>frameRange\<close> of
  the success payload holds the two bounds as they were given, not the integers. When the coercion of the start, or else of the
  end, raises, the handler prints a failure envelope and its only host calls are the
  lookup and the class query: the render is not invoked.
\<close>

theorem execute_frame_range:
  assumes "map_of kvs ''writeNodeName'' = Some nm"
    and "map_of kvs ''frameRangeStart'' = Some fs"
    and "map_of kvs ''frameRangeEnd'' = Some fe"
    and "nuke_toNode nk nm (host w) = (Inr (Some n), s1)"
    and "Node_Class nk n s1 = (Inr (PStr ''Write''), s2)"
  shows "(py_int p fs = Inr a \<longrightarrow> py_int p fe = Inr b \<longrightarrow>
          nuke_execute nk n a b s2 = (Inr (), s3) \<longrightarrow>
          Node_getitem nk n (PStr ''file'') s3 = (Inr k, s4) \<longrightarrow>
          Knob_value nk k s4 = (Inr path, s5) \<longrightarrow>
          accepted p (success (PDict [(''node'', nm), (''rendered'', PBool True),
                                      (''frameRange'', PDict [(''start'', fs), (''end'', fe)]),
                                      (''outputPath'', path)])) \<longrightarrow>
            execute p (PDict kvs) nk w =
              (Inr (), w\<lparr>host := s5,
                 calls := calls w @ [(C_toNode nm, Inr (R_found (Some n))),
                                     (C_Class n, Inr (R_val (PStr ''Write''))),
                                     (C_execute n a b, Inr R_unit),
                                     (C_getitem n (PStr ''file''), Inr (R_knob k)),
                                     (C_value k, Inr (R_val path))],
                 stdout := stdout w @
                   [success (PDict [(''node'', nm), (''rendered'', PBool True),
                                    (''frameRange'', PDict [(''start'', fs), (''end'', fe)]),
                                    (''outputPath'', path)])]\<rparr>)) \<and>
         (py_int p fs = Inl e \<or> (py_int p fs = Inr a \<and> py_int p fe = Inl e) \<longrightarrow>
            execute p (PDict kvs) nk w =
              (Inr (), w\<lparr>host := s2,
                 calls := calls w @ [(C_toNode nm, Inr (R_found (Some n))),
                                     (C_Class n, Inr (R_val (PStr ''Write'')))],
                 stdout := stdout w @
                   [failure (''Error executing write node: '' @ exn_str e)]\<rparr>))"
  using assms py_int_raises[of p fs e] py_int_raises[of p fe e]
  by (auto simp add: execute_def execute_try_def run_simps)

text \<open>
  C9 on the \<^verbatim>\<open>Write1\<close> node: the bounds \<^verbatim>\<open>"1"\<close> and \<^verbatim>\<open>10.0\<close> are rendered as 1 and
  10 and echoed as given; a start of None and an end of \<^verbatim>\<open>"ten"\<close> make the coercion
  raise.
\<close>

theorem execute_frame_range_witness:
  "nuke_toNode demo_nuke (PStr ''Write1'') (host world0) = (Inr (Some ''Write1''), session0) \<and>
   Node_Class demo_nuke ''Write1'' session0 = (Inr (PStr ''Write''), session0) \<and>
   py_int demo_py (PStr ''1'') = Inr 1 \<and>
   py_int demo_py (PFloat 0x4024000000000000) = Inr 10 \<and>
   nuke_execute demo_nuke ''Write1'' 1 10 session0 =
     (Inr (), session0\<lparr>rendered := [(''Write1'', 1, 10)]\<rparr>) \<and>
   Node_getitem demo_nuke ''Write1'' (PStr ''file'') (session0\<lparr>rendered := [(''Write1'', 1, 10)]\<rparr>) =
     (Inr (''Write1'', ''file''), session0\<lparr>rendered := [(''Write1'', 1, 10)]\<rparr>) \<and>
   Knob_value demo_nuke (''Write1'', ''file'') (session0\<lparr>rendered := [(''Write1'', 1, 10)]\<rparr>) =
     (Inr (PStr ''/out/shot.####.exr''), session0\<lparr>rendered := [(''Write1'', 1, 10)]\<rparr>) \<and>
   execute demo_py
     (PDict [(''writeNodeName'', PStr ''Write1''), (''frameRangeStart'', PStr ''1''),
             (''frameRangeEnd'', PFloat 0x4024000000000000)]) demo_nuke world0 =
     (Inr (), world0\<lparr>host := session0\<lparr>rendered := [(''Write1'', 1, 10)]\<rparr>,
        calls := calls world0 @
          [(C_toNode (PStr ''Write1''), Inr (R_found (Some ''Write1''))),
           (C_Class ''Write1'', Inr (R_val (PStr ''Write''))),
           (C_execute ''Write1'' 1 10, Inr R_unit),
           (C_getitem ''Write1'' (PStr ''file''), Inr (R_knob (''Write1'', ''file''))),
           (C_value (''Write1'', ''file''), Inr (R_val (PStr ''/out/shot.####.exr'')))],
        stdout := stdout world0 @
          [success (PDict [(''node'', PStr ''Write1''), (''rendered'', PBool True),
                           (''frameRange'', PDict [(''start'', PStr ''1''),
                                                   (''end'', PFloat 0x4024000000000000)]),
                           (''outputPath'', PStr ''/out/shot.####.exr'')])]\<rparr>) \<and>
   py_int demo_py PNone = Inl (Exn TypeError ''int'') \<and>
   execute demo_py
     (PDict [(''writeNodeName'', PStr ''Write1''), (''frameRangeStart'', PNone),
             (''frameRangeEnd'', PInt 10)]) demo_nuke world0 =
     (Inr (), world0\<lparr>host := session0,
        calls := calls world0 @
          [(C_toNode (PStr ''Write1''), Inr (R_found (Some ''Write1''))),
           (C_Class ''Write1'', Inr (R_val (PStr ''Write'')))],
        stdout := stdout world0 @ [failure ''Error executing write node: int'']\<rparr>) \<and>
   py_int demo_py (PInt 1) = Inr 1 \<and>
   py_int demo_py (PStr ''ten'') = Inl (Exn ValueError ''int'') \<and>
   execute demo_py
     (PDict [(''writeNodeName'', PStr ''Write1''), (''frameRangeStart'', PInt 1),
             (''frameRangeEnd'', PStr ''ten'')]) demo_nuke world0 =
     (Inr (), world0\<lparr>host := session0,
        calls := calls world0 @
          [(C_toNode (PStr ''Write1''), Inr (R_found (Some ''Write1''))),
           (C_Class ''Write1'', Inr (R_val (PStr ''Write'')))],
        stdout := stdout world0 @ [failure ''Error executing write node: int'']\<rparr>)"
proof -
  have t: "nuke_toNode demo_nuke (PStr ''Write1'') (host world0) = (Inr (Some ''Write1''), session0)"
    by (simp add: demo_simps)
  have c: "Node_Class demo_nuke ''Write1'' session0 = (Inr (PStr ''Write''), session0)"
    by (simp add: demo_simps)
  have i1: "py_int demo_py (PStr ''1'') = Inr 1" by (simp add: demo_py_def)
  have i2: "py_int demo_py (PFloat 0x4024000000000000) = Inr 10"
    by (simp add: float_to_int_def Let_def)
  have i3: "py_int demo_py PNone = Inl (Exn TypeError ''int'')"
    by (simp add: builtin_error_def demo_py_def)
  have i4: "py_int demo_py (PInt 1) = Inr 1" by simp
  have i5: "py_int demo_py (PStr ''ten'') = Inl (Exn ValueError ''int'')"
    by (simp add: builtin_error_def demo_py_def)
  have x: "nuke_execute demo_nuke ''Write1'' 1 10 session0 =
     (Inr (), session0\<lparr>rendered := [(''Write1'', 1, 10)]\<rparr>)"
    by (simp add: demo_simps)
  have g: "Node_getitem demo_nuke ''Write1'' (PStr ''file'') (session0\<lparr>rendered := [(''Write1'', 1, 10)]\<rparr>) =
     (Inr (''Write1'', ''file''), session0\<lparr>rendered := [(''Write1'', 1, 10)]\<rparr>)"
    by (simp add: demo_simps)
  have v: "Knob_value demo_nuke (''Write1'', ''file'') (session0\<lparr>rendered := [(''Write1'', 1, 10)]\<rparr>) =
     (Inr (PStr ''/out/shot.####.exr''), session0\<lparr>rendered := [(''Write1'', 1, 10)]\<rparr>)"
    by (simp add: demo_simps)
  have acc: "accepted demo_py
     (success (PDict [(''node'', PStr ''Write1''), (''rendered'', PBool True),
                      (''frameRange'', PDict [(''start'', PStr ''1''),
                                              (''end'', PFloat 0x4024000000000000)]),
                      (''outputPath'', PStr ''/out/shot.####.exr'')]))"
    by (simp add: accepted_def success_def demo_py_def)
  from execute_frame_range[of "[(''writeNodeName'', PStr ''Write1''), (''frameRangeStart'', PStr ''1''),
             (''frameRangeEnd'', PFloat 0x4024000000000000)]" "PStr ''Write1''" "PStr ''1''"
             "PFloat 0x4024000000000000", OF _ _ _ t c, of demo_py 1 10
             "session0\<lparr>rendered := [(''Write1'', 1, 10)]\<rparr>" "(''Write1'', ''file'')"
             "session0\<lparr>rendered := [(''Write1'', 1, 10)]\<rparr>" "PStr ''/out/shot.####.exr''"
             "session0\<lparr>rendered := [(''Write1'', 1, 10)]\<rparr>"]
       execute_frame_range[of "[(''writeNodeName'', PStr ''Write1''), (''frameRangeStart'', PNone),
             (''frameRangeEnd'', PInt 10)]" "PStr ''Write1''" PNone "PInt 10", OF _ _ _ t c,
             of demo_py _ _ _ _ _ _ _ "Exn TypeError ''int''"]
       execute_frame_range[of "[(''writeNodeName'', PStr ''Write1''), (''frameRangeStart'', PInt 1),
             (''frameRangeEnd'', PStr ''ten'')]" "PStr ''Write1''" "PInt 1" "PStr ''ten''", OF _ _ _ t c,
             of demo_py 1 _ _ _ _ _ _ "Exn ValueError ''int''"]
       t c i1 i2 i3 i4 i5 x g v acc
  show ?thesis by (simp add: py_str_def)
qed

subsection \<open>Claim C10\<close>

text \<open>
  Claim C10. \<^verbatim>\<open>createNode\<close> with a \<^verbatim>\<open>name\<close> that is present and false (the empty
  string, None, 0, ...): when the node is created, its inputs are all wired, it
  answers the queries for its name, class and position and \<^verbatim>\<open>json.dumps\<close> encodes
  the payload, the host calls are the
  creation, the lookups and wirings of the inputs and these four queries. No knob is
  fetched or set, and the name in the success payload is the one the host reports.
\<close>

theorem create_node_falsy_name:
  assumes "map_of kvs ''nodeType'' = Some node_type"
    and "map_of kvs ''name'' = Some name"
    and "\<not> py_truthy name"
    and "py_iter p (case map_of kvs ''inputs'' of None \<Rightarrow> PList [] | Some v \<Rightarrow> v) = Inr items"
    and "nuke_createNode nk node_type (host w) = (Inr node, s1)"
    and "create_node_inputs p nk node 0 items
           (w\<lparr>host := s1, calls := calls w @ [(C_createNode node_type, Inr (R_node node))]\<rparr>) =
         (Inr True, w2)"
    and "Node_name nk node (host w2) = (Inr default_name, s3)"
    and "Node_Class nk node s3 = (Inr c, s4)"
    and "Node_xpos nk node s4 = (Inr x, s5)"
    and "Node_ypos nk node s5 = (Inr y, s6)"
    and "accepted p (success (PDict [(''name'', default_name), (''type'', c),
                                     (''position'', PDict [(''x'', x), (''y'', y)])]))"
  shows "create_node p (PDict kvs) nk w =
           (Inr (), w2\<lparr>host := s6,
              calls := calls w2 @ [(C_name node, Inr (R_val default_name)), (C_Class node, Inr (R_val c)),
                                   (C_xpos node, Inr (R_val x)), (C_ypos node, Inr (R_val y))],
              stdout := stdout w @
                [success (PDict [(''name'', default_name), (''type'', c),
                                 (''position'', PDict [(''x'', x), (''y'', y)])])]\<rparr>) \<and>
         (\<exists>ms. length ms = length items \<and>
               calls w2 = calls w @ (C_createNode node_type, Inr (R_node node)) # wiring node 0 items ms)"
proof -
  from create_node_inputs_completed[OF assms(6)] obtain ms where
    ms: "length ms = length items"
        "calls w2 = calls w @ (C_createNode node_type, Inr (R_node node)) # wiring node 0 items ms"
        "stdout w2 = stdout w"
    by auto
  have "create_node p (PDict kvs) nk w =
           (Inr (), w2\<lparr>host := s6,
              calls := calls w2 @ [(C_name node, Inr (R_val default_name)), (C_Class node, Inr (R_val c)),
                                   (C_xpos node, Inr (R_val x)), (C_ypos node, Inr (R_val y))],
              stdout := stdout w @
                [success (PDict [(''name'', default_name), (''type'', c),
                                 (''position'', PDict [(''x'', x), (''y'', y)])])]\<rparr>)"
    using assms ms(3)
    by (simp add: create_node_run create_node_try_def run_simps)
       (simp add: pbind_def pret_def node_info_def name_of_def Class_of_def xpos_def ypos_def
          host_call_def respond_success)
  with ms show ?thesis by blast
qed

text \<open>
  C10 for a \<^verbatim>\<open>Blur\<close> node with the empty name: the payload names it \<^verbatim>\<open>Blur1\<close>.
\<close>

theorem create_node_falsy_name_witness:
  "map_of [(''nodeType'', PStr ''Blur''), (''name'', PStr [])] ''nodeType'' = Some (PStr ''Blur'') \<and>
   map_of [(''nodeType'', PStr ''Blur''), (''name'', PStr [])] ''name'' = Some (PStr []) \<and>
   \<not> py_truthy (PStr []) \<and>
   py_iter demo_py
     (case map_of [(''nodeType'', PStr ''Blur''), (''name'', PStr [])] ''inputs'' of
        None \<Rightarrow> PList [] | Some v \<Rightarrow> v) = Inr [] \<and>
   nuke_createNode demo_nuke (PStr ''Blur'') (host world0) =
     (Inr ''Blur1'', session0\<lparr>nodes := nodes session0 @ [(''Blur1'', ''Blur'')]\<rparr>) \<and>
   Node_name demo_nuke ''Blur1'' (session0\<lparr>nodes := nodes session0 @ [(''Blur1'', ''Blur'')]\<rparr>) =
     (Inr (PStr ''Blur1''), session0\<lparr>nodes := nodes session0 @ [(''Blur1'', ''Blur'')]\<rparr>) \<and>
   Node_Class demo_nuke ''Blur1'' (session0\<lparr>nodes := nodes session0 @ [(''Blur1'', ''Blur'')]\<rparr>) =
     (Inr (PStr ''Blur''), session0\<lparr>nodes := nodes session0 @ [(''Blur1'', ''Blur'')]\<rparr>) \<and>
   create_node demo_py (PDict [(''nodeType'', PStr ''Blur''), (''name'', PStr [])]) demo_nuke world0 =
     (Inr (),
      world0\<lparr>host := session0\<lparr>nodes := nodes session0 @ [(''Blur1'', ''Blur'')]\<rparr>,
             calls := calls world0 @
               [(C_createNode (PStr ''Blur''), Inr (R_node ''Blur1'')),
                (C_name ''Blur1'', Inr (R_val (PStr ''Blur1''))),
                (C_Class ''Blur1'', Inr (R_val (PStr ''Blur''))),
                (C_xpos ''Blur1'', Inr (R_val (PInt 0))),
                (C_ypos ''Blur1'', Inr (R_val (PInt 0)))],
             stdout := stdout world0 @
               [success (PDict [(''name'', PStr ''Blur1''), (''type'', PStr ''Blur''),
                                (''position'', PDict [(''x'', PInt 0), (''y'', PInt 0)])])]\<rparr>)"
  (is "?A \<and> ?B \<and> ?C \<and> ?D \<and> ?E \<and> ?F \<and> ?G \<and> ?H")
proof -
  let ?s1 = "session0\<lparr>nodes := nodes session0 @ [(''Blur1'', ''Blur'')]\<rparr>"
  let ?w1 = "world0\<lparr>host := ?s1, calls := calls world0 @ [(C_createNode (PStr ''Blur''), Inr (R_node ''Blur1''))]\<rparr>"
  have a: ?A by simp
  have b: ?B by simp
  have c: ?C by simp
  have d: ?D by simp
  have e: ?E by (simp add: demo_simps)
  have l: "create_node_inputs demo_py demo_nuke ''Blur1'' 0 [] ?w1 = (Inr True, ?w1)"
    by (simp add: pret_def)
  have f: "Node_name demo_nuke ''Blur1'' (host ?w1) = (Inr (PStr ''Blur1''), ?s1)"
    by (simp add: demo_simps)
  have g: ?G by (simp add: demo_simps)
  have x: "Node_xpos demo_nuke ''Blur1'' ?s1 = (Inr (PInt 0), ?s1)" by (simp add: demo_simps)
  have y: "Node_ypos demo_nuke ''Blur1'' ?s1 = (Inr (PInt 0), ?s1)" by (simp add: demo_simps)
  have acc: "accepted demo_py
     (success (PDict [(''name'', PStr ''Blur1''), (''type'', PStr ''Blur''),
                      (''position'', PDict [(''x'', PInt 0), (''y'', PInt 0)])]))"
    by (simp add: accepted_def success_def demo_py_def)
  from create_node_falsy_name[OF a b c d e l f g x y acc] have h: ?H by simp
  from f have f': ?F by simp
  from a b c d e f' g h show ?thesis by blast
qed

end
